theory Spec2Isabelle
  imports Complex_Main "HOL-Library.Multiset"
begin

section \<open>Piece catalogue (cube3d.js, static tables of class Cube3D)\<close>

text \<open>
  Piece names are JavaScript strings over the letters U, D, L, R, F, B: two letters for
  an edge, three for a corner. \<open>CUBIE_ORDER\<close> fixes the slot index 0..19 of the
  permutation and orientation arrays.
\<close>

definition CUBIE_ORDER :: "string list" where
  "CUBIE_ORDER =
     [''UF'', ''UR'', ''UB'', ''UL'', ''DF'', ''DR'', ''DB'', ''DL'', ''FR'', ''FL'', ''BR'', ''BL'',
      ''UFR'', ''URB'', ''UBL'', ''ULF'', ''DRF'', ''DFL'', ''DLB'', ''DBR'']"

text \<open>
  \<open>CUBIE_COORDINATES\<close> and \<open>ADJACENCY_MAP\<close> are object literals; an association
  list keeps their keys in source order, and \<open>map_of\<close> is the property lookup
  (\<open>None\<close> for \<open>undefined\<close>).
\<close>

definition CUBIE_COORDINATES :: "(string \<times> (int \<times> int \<times> int)) list" where
  "CUBIE_COORDINATES =
     [(''UF'', (1, 2, 2)), (''UR'', (2, 1, 2)), (''UB'', (1, 0, 2)), (''UL'', (0, 1, 2)),
      (''DF'', (1, 2, 0)), (''DR'', (2, 1, 0)), (''DB'', (1, 0, 0)), (''DL'', (0, 1, 0)),
      (''FR'', (2, 2, 1)), (''FL'', (0, 2, 1)), (''BR'', (2, 0, 1)), (''BL'', (0, 0, 1)),
      (''UFR'', (2, 2, 2)), (''URB'', (2, 0, 2)), (''UBL'', (0, 0, 2)), (''ULF'', (0, 2, 2)),
      (''DRF'', (2, 2, 0)), (''DFL'', (0, 2, 0)), (''DLB'', (0, 0, 0)), (''DBR'', (2, 0, 0))]"

definition ADJACENCY_MAP :: "(string \<times> string list) list" where
  "ADJACENCY_MAP =
     [(''UFR'', [''UF'', ''FR'', ''UR'']),
      (''URB'', [''UR'', ''BR'', ''UB'']),
      (''UBL'', [''UB'', ''BL'', ''UL'']),
      (''ULF'', [''UL'', ''FL'', ''UF'']),
      (''DRF'', [''DF'', ''FR'', ''DR'']),
      (''DFL'', [''DF'', ''FL'', ''DL'']),
      (''DLB'', [''DL'', ''BL'', ''DB'']),
      (''DBR'', [''DB'', ''BR'', ''DR'']),
      (''UF'', [''UFR'', ''ULF'']),
      (''UR'', [''UFR'', ''URB'']),
      (''UB'', [''URB'', ''UBL'']),
      (''UL'', [''UBL'', ''ULF'']),
      (''DF'', [''DRF'', ''DFL'']),
      (''DR'', [''DRF'', ''DBR'']),
      (''DB'', [''DBR'', ''DLB'']),
      (''DL'', [''DLB'', ''DFL'']),
      (''FR'', [''UFR'', ''DRF'']),
      (''FL'', [''ULF'', ''DFL'']),
      (''BR'', [''URB'', ''DBR'']),
      (''BL'', [''UBL'', ''DLB''])]"

text \<open>The pieces listed for a name; a name that is no key of the table lists none.\<close>

definition neighbours :: "string \<Rightarrow> string list" where
  "neighbours a = (case map_of ADJACENCY_MAP a of None \<Rightarrow> [] | Some ns \<Rightarrow> ns)"

definition coordinates :: "string \<Rightarrow> (int \<times> int \<times> int) option" where
  "coordinates a = map_of CUBIE_COORDINATES a"

text \<open>Two grid points differ by exactly 1 in exactly one axis and agree in the other two.\<close>

fun unit_axis_step :: "int \<times> int \<times> int \<Rightarrow> int \<times> int \<times> int \<Rightarrow> bool" where
  "unit_axis_step (x, y, z) (x', y', z') =
     ((\<bar>x - x'\<bar> = 1 \<and> y = y' \<and> z = z') \<or>
      (x = x' \<and> \<bar>y - y'\<bar> = 1 \<and> z = z') \<or>
      (x = x' \<and> y = y' \<and> \<bar>z - z'\<bar> = 1))"

text \<open>Every (piece, listed neighbour) pair of the table, in source order.\<close>

definition adjacency_pairs :: "(string \<times> string) list" where
  "adjacency_pairs = concat (map (\<lambda>(a, ns). map (Pair a) ns) ADJACENCY_MAP)"

definition adjacent_ok :: "string \<times> string \<Rightarrow> bool" where
  "adjacent_ok ab =
     (case ab of (a, b) \<Rightarrow>
        ((length a = 2 \<and> length b = 3) \<or> (length a = 3 \<and> length b = 2)) \<and>
        a \<in> set (neighbours b) \<and>
        (case (coordinates a, coordinates b) of
           (Some ca, Some cb) \<Rightarrow> unit_axis_step ca cb
         | _ \<Rightarrow> False))"

section \<open>JavaScript primitives used by the source\<close>

datatype js_error = TypeError

text \<open>
  \<open>xs[i]\<close> for an integer \<open>i\<close>: an index outside the array reads \<open>undefined\<close>
  (\<open>None\<close>); JavaScript does not raise.
\<close>

definition js_get :: "'a list \<Rightarrow> int \<Rightarrow> 'a option" where
  "js_get xs i = (if 0 \<le> i \<and> i < int (length xs) then Some (xs ! nat i) else None)"

text \<open>
  \<open>Array.prototype.indexOf\<close>, and \<open>String.prototype.indexOf\<close> with a one-character
  argument: the first position of the element, or -1.
\<close>

fun indexOf_from :: "'a list \<Rightarrow> 'a \<Rightarrow> int \<Rightarrow> int" where
  "indexOf_from [] x i = -1"
| "indexOf_from (y # ys) x i = (if y = x then i else indexOf_from ys x (i + 1))"

definition indexOf :: "'a list \<Rightarrow> 'a \<Rightarrow> int" where
  "indexOf xs x = indexOf_from xs x 0"

text \<open>
  The remainder operator \<open>%\<close> on integers takes the sign of the dividend; a zero
  divisor gives \<open>NaN\<close>, and so does a \<open>NaN\<close> dividend (\<open>None\<close>).
\<close>

definition js_rem :: "int option \<Rightarrow> int \<Rightarrow> int option" where
  "js_rem a b =
     (case a of None \<Rightarrow> None
      | Some n \<Rightarrow> if b = 0 then None
                  else if 0 \<le> n then Some (n mod \<bar>b\<bar>) else Some (- ((- n) mod \<bar>b\<bar>)))"

text \<open>
  \<open>String.prototype.charAt\<close>: the one-character string at the position, the empty string
  outside the string; a \<open>NaN\<close> position counts as 0.
\<close>

definition charAt :: "string \<Rightarrow> int option \<Rightarrow> string" where
  "charAt s pos =
     (let i = (case pos of None \<Rightarrow> 0 | Some n \<Rightarrow> n)
      in if 0 \<le> i \<and> i < int (length s) then [s ! nat i] else [])"

text \<open>
  \<open>Array.prototype.toString\<close> of an array of strings joins them with commas.
\<close>

fun toString :: "string list \<Rightarrow> string" where
  "toString [] = []"
| "toString [c] = c"
| "toString (c # d # cs) = c @ CHR '','' # toString (d # cs)"

section \<open>The facelet projector (stateToFaceletColors)\<close>

definition getStateIndex :: "string \<Rightarrow> int" where
  "getStateIndex cubie = indexOf CUBIE_ORDER cubie"

text \<open>The table \<open>FACELETS\<close> local to \<open>stateToFaceletColors\<close>, keyed by the face letter.\<close>

definition FACELETS :: "(char \<times> string list) list" where
  "FACELETS =
     [(CHR ''U'', [''UBL'', ''UB'', ''URB'', ''UL'', ''U'', ''UR'', ''ULF'', ''UF'', ''UFR'']),
      (CHR ''L'', [''UBL'', ''UL'', ''ULF'', ''BL'', ''L'', ''FL'', ''DLB'', ''DL'', ''DFL'']),
      (CHR ''F'', [''ULF'', ''UF'', ''UFR'', ''FL'', ''F'', ''FR'', ''DFL'', ''DF'', ''DRF'']),
      (CHR ''R'', [''UFR'', ''UR'', ''URB'', ''FR'', ''R'', ''BR'', ''DRF'', ''DR'', ''DBR'']),
      (CHR ''B'', [''URB'', ''UB'', ''UBL'', ''BR'', ''B'', ''BL'', ''DBR'', ''DB'', ''DLB'']),
      (CHR ''D'', [''DFL'', ''DF'', ''DRF'', ''DL'', ''D'', ''DR'', ''DLB'', ''DB'', ''DBR''])]"

text \<open>The faces in the order of the outer loop, \<open>for (const face of 'ULFRBD')\<close>.\<close>

definition faces :: "char list" where
  "faces = ''ULFRBD''"

text \<open>\<open>FACELETS[face]\<close>; every face of the loop is a key of the table.\<close>

definition face_facelets :: "char \<Rightarrow> string list" where
  "face_facelets face = (case map_of FACELETS face of None \<Rightarrow> [] | Some fs \<Rightarrow> fs)"

text \<open>
  The body of the inner loop: the colour pushed for one facelet of one face.
  \<open>CUBIE_ORDER[permutation[index]]\<close> is \<open>undefined\<close> when the slot is missing from the
  array or holds a value outside 0..19 (the unassigned marker -1 among them), and
  \<open>undefined.charAt\<close> throws a TypeError. A missing orientation entry is \<open>undefined\<close>,
  the sum is then \<open>NaN\<close>, and \<open>charAt(NaN)\<close> reads position 0.
\<close>

definition facelet_color :: "int list \<Rightarrow> int list \<Rightarrow> char \<Rightarrow> string \<Rightarrow> js_error + string" where
  "facelet_color permutation orientation face facelet =
     (if length facelet = 1 then Inr facelet
      else
        let index = getStateIndex facelet;
            actualPermutation =
              (case js_get permutation index of None \<Rightarrow> None | Some p \<Rightarrow> js_get CUBIE_ORDER p);
            base = indexOf facelet face;
            actualOrientation =
              (if length facelet = 2 then
                 (case js_get orientation index of None \<Rightarrow> None | Some ori \<Rightarrow> Some (base + ori))
               else if length facelet = 3 then
                 (case js_get orientation index of None \<Rightarrow> None | Some ori \<Rightarrow> Some (base + (3 - ori)))
               else Some base)
        in case actualPermutation of
             None \<Rightarrow> Inl TypeError
           | Some name \<Rightarrow> Inr (charAt name (js_rem actualOrientation (int (length name)))))"

text \<open>The pushes in order; the first exception leaves the function.\<close>

fun push_colors :: "(js_error + string) list \<Rightarrow> js_error + string list" where
  "push_colors [] = Inr []"
| "push_colors (Inl e # rest) = Inl e"
| "push_colors (Inr c # rest) =
     (case push_colors rest of Inl e \<Rightarrow> Inl e | Inr cs \<Rightarrow> Inr (c # cs))"

text \<open>The (face, facelet) pairs in the order the two nested loops visit them.\<close>

definition facelet_pairs :: "(char \<times> string) list" where
  "facelet_pairs = concat (map (\<lambda>face. map (Pair face) (face_facelets face)) faces)"

text \<open>
  A state is the flat array \<open>[...permutation, ...orientation]\<close>; \<open>slice(0, 20)\<close> and
  \<open>slice(20)\<close> split it.
\<close>

definition stateToFaceletColors :: "int list \<Rightarrow> js_error + string list" where
  "stateToFaceletColors state =
     (let permutation = take 20 state;
          orientation = drop 20 state
      in push_colors
           (map (\<lambda>(face, facelet). facelet_color permutation orientation face facelet)
              facelet_pairs))"

text \<open>
  \<open>countSolvedStickers\<close>: \<open>answerColors\<close> is the module-level constant
  \<open>stateToFaceletColors(answerState)\<close>; the guess is read from the cube object.
  The strict comparison \<open>===\<close> of two array reads is the equality of the two
  optional values (\<open>undefined === undefined\<close> holds).
\<close>

fun count_matches :: "string list \<Rightarrow> string list \<Rightarrow> nat list \<Rightarrow> nat \<Rightarrow> nat" where
  "count_matches currentColors answerColors [] solvedStickers = solvedStickers"
| "count_matches currentColors answerColors (i # is) solvedStickers =
     (if i mod 9 = 4 then count_matches currentColors answerColors is solvedStickers
      else if js_get currentColors (int i) = js_get answerColors (int i)
      then count_matches currentColors answerColors is (solvedStickers + 1)
      else count_matches currentColors answerColors is solvedStickers)"

definition countSolvedStickers :: "int list \<Rightarrow> int list \<Rightarrow> string list \<Rightarrow> js_error + nat" where
  "countSolvedStickers permutation orientation answerColors =
     (case stateToFaceletColors (permutation @ orientation) of
        Inl e \<Rightarrow> Inl e
      | Inr currentColors \<Rightarrow> Inr (count_matches currentColors answerColors [0..<54] 0 + 6))"

section \<open>Predicates and reference functions of the properties\<close>

text \<open>
  A complete state: 40 entries, the first 20 a rearrangement of the slot values 0..19, the
  orientations of the 12 edge slots in {0, 1} and those of the 8 corner slots in {0, 1, 2}.
\<close>

definition complete_state :: "int list \<Rightarrow> bool" where
  "complete_state st =
     (length st = 40 \<and> mset (take 20 st) = mset [0..19] \<and>
      list_all (\<lambda>ori. ori = 0 \<or> ori = 1) (take 12 (drop 20 st)) \<and>
      list_all (\<lambda>ori. ori = 0 \<or> ori = 1 \<or> ori = 2) (drop 32 st))"

text \<open>
  The colour of a non-centre facelet, read off the piece that occupies the facelet's slot:
  the character of the occupant's name at the facelet's position of the face within the
  facelet name, shifted by the orientation for an edge facelet and by 3 minus the
  orientation for a corner facelet, modulo the length of the occupant's name.
\<close>

definition piece_color :: "int list \<Rightarrow> char \<Rightarrow> string \<Rightarrow> string" where
  "piece_color st face facelet =
     (let slot = nat (getStateIndex facelet);
          name = CUBIE_ORDER ! nat (st ! slot);
          ori = st ! (20 + slot);
          offset = (if length facelet = 2 then ori else 3 - ori)
      in charAt name (Some ((indexOf facelet face + offset) mod int (length name))))"

text \<open>
  The colour as the property states it: the index is taken modulo the length of the
  occupant's name for an edge facelet and modulo 3 for a corner facelet.
\<close>

definition claimed_color :: "int list \<Rightarrow> char \<Rightarrow> string \<Rightarrow> string" where
  "claimed_color st face facelet =
     (let slot = nat (getStateIndex facelet);
          name = CUBIE_ORDER ! nat (st ! slot);
          ori = st ! (20 + slot)
      in if length facelet = 2
         then charAt name (Some ((indexOf facelet face + ori) mod int (length name)))
         else charAt name (Some ((indexOf facelet face + (3 - ori)) mod 3)))"

text \<open>
  What the projector relies on for a (face, facelet) pair of its table: a one-letter facelet
  is the face's own centre; any other facelet is a name of \<open>CUBIE_ORDER\<close> that contains
  the face letter, with two letters in an edge slot and three in a corner slot.
\<close>

definition pair_ok :: "char \<times> string \<Rightarrow> bool" where
  "pair_ok fp =
     (case fp of (face, facelet) \<Rightarrow>
        if length facelet = 1 then facelet = [face]
        else 0 \<le> getStateIndex facelet \<and> getStateIndex facelet < 20 \<and>
             0 \<le> indexOf facelet face \<and>
             (if getStateIndex facelet < 12 then length facelet = 2 else length facelet = 3))"

text \<open>The colour of any facelet of the table: the face letter at a centre.\<close>

definition facelet_colour_of :: "int list \<Rightarrow> char \<times> string \<Rightarrow> string" where
  "facelet_colour_of st fp =
     (case fp of (face, facelet) \<Rightarrow>
        if length facelet = 1 then [face] else piece_color st face facelet)"

text \<open>
  A concrete state: the edges UF and UR are swapped and flipped, the corners UFR and URB
  are swapped and twisted.
\<close>

definition twisted_permutation :: "int list" where
  "twisted_permutation = [1, 0, 2, 3, 4, 5, 6, 7, 8, 9, 10, 11, 13, 12, 14, 15, 16, 17, 18, 19]"

definition twisted_orientation :: "int list" where
  "twisted_orientation = [1, 1, 0, 0, 0, 0, 0, 0, 0, 0, 0, 0, 1, 2, 0, 0, 0, 0, 0, 0]"

definition twisted_state :: "int list" where
  "twisted_state = twisted_permutation @ twisted_orientation"

text \<open>The solved state, and the colours the projector shows for the two states.\<close>

definition solved_state :: "int list" where
  "solved_state = [0..19] @ replicate 20 0"

definition solved_colors :: "string list" where
  "solved_colors =
     [''U'', ''U'', ''U'', ''U'', ''U'', ''U'', ''U'', ''U'', ''U'',
      ''L'', ''L'', ''L'', ''L'', ''L'', ''L'', ''L'', ''L'', ''L'',
      ''F'', ''F'', ''F'', ''F'', ''F'', ''F'', ''F'', ''F'', ''F'',
      ''R'', ''R'', ''R'', ''R'', ''R'', ''R'', ''R'', ''R'', ''R'',
      ''B'', ''B'', ''B'', ''B'', ''B'', ''B'', ''B'', ''B'', ''B'',
      ''D'', ''D'', ''D'', ''D'', ''D'', ''D'', ''D'', ''D'', ''D'']"

definition twisted_colors :: "string list" where
  "twisted_colors =
     [''U'', ''U'', ''F'', ''U'', ''U'', ''F'', ''U'', ''R'', ''B'',
      ''L'', ''L'', ''L'', ''L'', ''L'', ''L'', ''L'', ''L'', ''L'',
      ''F'', ''U'', ''U'', ''F'', ''F'', ''F'', ''F'', ''F'', ''F'',
      ''R'', ''U'', ''R'', ''R'', ''R'', ''R'', ''R'', ''R'', ''R'',
      ''U'', ''B'', ''B'', ''B'', ''B'', ''B'', ''B'', ''B'', ''B'',
      ''D'', ''D'', ''D'', ''D'', ''D'', ''D'', ''D'', ''D'', ''D'']"

text \<open>
  A complete role-correct state: the 12 edge slots hold a rearrangement of the edge values
  0..11 and the 8 corner slots a rearrangement of the corner values 12..19 (so no slot is
  unassigned), edge orientations in {0, 1} and corner orientations in {0, 1, 2}.
\<close>

definition role_correct :: "int list \<Rightarrow> bool" where
  "role_correct st =
     (length st = 40 \<and>
      mset (take 12 st) = mset [0..11] \<and>
      mset (take 8 (drop 12 st)) = mset [12..19] \<and>
      list_all (\<lambda>ori. ori = 0 \<or> ori = 1) (take 12 (drop 20 st)) \<and>
      list_all (\<lambda>ori. ori = 0 \<or> ori = 1 \<or> ori = 2) (drop 32 st))"

text \<open>
  What a slot shows on its faces, in the order of the letters of the slot's own name:
  piece \<open>p\<close> with orientation \<open>ori\<close> in a slot whose name has \<open>len\<close> letters.
\<close>

definition slot_view :: "nat \<Rightarrow> int \<Rightarrow> int \<Rightarrow> string list" where
  "slot_view len p ori =
     map (\<lambda>j. charAt (CUBIE_ORDER ! nat p)
                 (Some ((int j + (if len = 2 then ori else 3 - ori)) mod
                        int (length (CUBIE_ORDER ! nat p)))))
       [0..<len]"

text \<open>
  What the win test relies on for slot \<open>i\<close>: its name is at index \<open>i\<close> of
  \<open>CUBIE_ORDER\<close>, has two letters for an edge slot and three for a corner slot, and
  each letter of the name is a face on which the projector's table lists the name.
\<close>

definition slot_ok :: "nat \<Rightarrow> bool" where
  "slot_ok i =
     (let n = CUBIE_ORDER ! i
      in getStateIndex n = int i \<and> length n = (if i < 12 then 2 else 3) \<and>
         list_all (\<lambda>j. (n ! j, n) \<in> set facelet_pairs \<and> indexOf n (n ! j) = int j)
           [0..<length n])"

section \<open>Generation of the answer state (generateCubeState, shuffle)\<close>











text \<open>
  Modelled from the spec: the permutation parity that \<open>RubiksCubeSolver\<close> computes
  (lib/solver.js is not among the sources), as the parity of the number of inversions of
  the sequence.
\<close>

fun inversions :: "int list \<Rightarrow> nat" where
  "inversions [] = 0"
| "inversions (x # xs) = length (filter (\<lambda>y. y < x) xs) + inversions xs"

text \<open>
  Modelled from the spec: \<open>verifyState\<close> of \<open>RubiksCubeSolver\<close> (lib/solver.js is not
  among the sources). The spec: true iff edge-permutation parity XOR corner-permutation
  parity is even, the edge orientation sum is 0 modulo 2 and the corner orientation sum is
  0 modulo 3.
\<close>

definition verifyState :: "int list \<Rightarrow> bool" where
  "verifyState state =
     (let permutation = take 20 state; orientation = drop 20 state
      in (odd (inversions (take 12 permutation)) \<longleftrightarrow> odd (inversions (drop 12 permutation))) \<and>
         sum_list (take 12 orientation) mod 2 = 0 \<and>
         sum_list (drop 12 orientation) mod 3 = 0)"




section \<open>The 3D cube object (class Cube3D)\<close>

text \<open>
  Vectors are \<open>THREE.Vector3\<close>. Their components and every score computed from them are
  real numbers here: the double-precision arithmetic of the library is taken as exact.
  \<open>normalize\<close> divides by \<open>length() || 1\<close>, so the zero vector stays the zero vector.
\<close>

type_synonym vec3 = "real \<times> real \<times> real"

fun crossVectors :: "vec3 \<Rightarrow> vec3 \<Rightarrow> vec3" where
  "crossVectors (ax, ay, az) (bx, by, bz) =
     (ay * bz - az * by, az * bx - ax * bz, ax * by - ay * bx)"

fun subVectors :: "vec3 \<Rightarrow> vec3 \<Rightarrow> vec3" where
  "subVectors (ax, ay, az) (bx, by, bz) = (ax - bx, ay - by, az - bz)"

fun dot :: "vec3 \<Rightarrow> vec3 \<Rightarrow> real" where
  "dot (ax, ay, az) (bx, by, bz) = ax * bx + ay * by + az * bz"

fun negate :: "vec3 \<Rightarrow> vec3" where
  "negate (x, y, z) = (- x, - y, - z)"

fun lengthSq :: "vec3 \<Rightarrow> real" where
  "lengthSq (x, y, z) = x * x + y * y + z * z"

fun divideScalar :: "vec3 \<Rightarrow> real \<Rightarrow> vec3" where
  "divideScalar (x, y, z) s = (x / s, y / s, z / s)"

definition normalize :: "vec3 \<Rightarrow> vec3" where
  "normalize v =
     (let len = sqrt (lengthSq v) in divideScalar v (if len = 0 then 1 else len))"

text \<open>
  A cubie of the scene: the name given to its constructor and the position of its mesh.
  What the camera contributes to navigation: \<open>getWorldDirection\<close>, \<open>up\<close>, and the
  image of the x axis under \<open>camera.quaternion\<close> (the fallback for a degenerate right
  vector).
\<close>

record cubie =
  name :: string
  position :: vec3

record camera =
  worldDirection :: vec3
  up :: vec3
  quaternionX :: vec3

text \<open>
  The fields of the object that the picker and the navigation read or write, the three
  controls of the page they drive (the buttons of \<open>#picker\<close> with their \<open>disabled\<close>
  flags, \<open>#erase\<close> and \<open>#rotate\<close>), the cubie captured by the click handlers that
  \<open>initPicker\<close> installed last, and the two arrays that \<open>save\<close> wrote to the
  storage (\<open>None\<close> when the key is absent). The colours of the meshes
  (\<open>setColors\<close>, \<open>erase\<close>, \<open>rotate\<close> of class Cubie) are rendering and are left
  out.
\<close>

record cube3d =
  savedCubies :: "cubie list"
  permutation :: "int list"
  orientation :: "int list"
  answerPermutation :: "int list"
  answerOrientation :: "int list"
  selection_position :: vec3
  selection_visible :: bool
  selection_opacity :: real
  picker :: "(string \<times> bool) list"
  erase_disabled :: bool
  rotate_disabled :: bool
  handler_cubie :: "cubie option"
  stored_permutation :: "int list option"
  stored_orientation :: "int list option"

text \<open>
  \<open>xs[i] = v\<close> for an integer \<open>i\<close>. The arrays of the object have 20 entries (field
  initialisers) and the index is a \<open>getStateIndex\<close>, between -1 and 19: index -1 sets a
  property that is no element of the array, which keeps its entries. A write past the end
  would lengthen the array; it does not occur with 20 entries and is left out.
\<close>

definition js_set :: "'a list \<Rightarrow> int \<Rightarrow> 'a \<Rightarrow> 'a list" where
  "js_set xs i v = (if 0 \<le> i \<and> i < int (length xs) then xs[nat i := v] else xs)"

definition isCenterName :: "string \<Rightarrow> bool" where
  "isCenterName n = (length n \<noteq> 2 \<and> length n \<noteq> 3)"

text \<open>\<open>correct(index)\<close>: the slot was right in the last saved guess.\<close>

definition correct :: "('a cube3d_scheme) \<Rightarrow> int \<Rightarrow> bool" where
  "correct c index =
     (case (stored_permutation c, stored_orientation c) of
        (Some lastPermutation, Some lastOrientation) \<Rightarrow>
          js_get lastPermutation index = js_get (answerPermutation c) index \<and>
          js_get lastOrientation index = js_get (answerOrientation c) index
      | _ \<Rightarrow> False)"

text \<open>The pieces offered for an edge and for a corner, in the order of the buttons.\<close>

definition EDGE_PIECES :: "string list" where
  "EDGE_PIECES =
     [''UB'', ''UL'', ''DB'', ''DL'', ''BL'', ''FL'', ''UF'', ''UR'', ''DF'', ''DR'', ''BR'', ''FR'']"

definition CORNER_PIECES :: "string list" where
  "CORNER_PIECES = [''UBL'', ''ULF'', ''UFR'', ''URB'', ''DLB'', ''DFL'', ''DRF'', ''DBR'']"

definition initPicker :: "cube3d \<Rightarrow> cubie \<Rightarrow> bool \<Rightarrow> cube3d" where
  "initPicker c cubie keepSelection =
     (if isCenterName (name cubie) then
        c\<lparr>selection_position := position cubie, selection_visible := True,
          selection_opacity := 1 / 4, erase_disabled := True, rotate_disabled := True,
          picker := []\<rparr>
      else
        let stateIndex = getStateIndex (name cubie);
            c1 = c\<lparr>picker := []\<rparr>
        in if \<not> keepSelection \<and> position cubie = selection_position c1 then
             c1\<lparr>selection_position := (0, 0, 0), selection_visible := False,
                erase_disabled := True, rotate_disabled := True\<rparr>
           else
             let c2 = c1\<lparr>selection_position := position cubie, selection_visible := True,
                         selection_opacity := 1 / 2\<rparr>
             in if correct c2 stateIndex then
                  c2\<lparr>erase_disabled := True, rotate_disabled := True,
                     selection_opacity := 1 / 4\<rparr>
                else
                  c2\<lparr>picker :=
                       map (\<lambda>piece. (piece, getStateIndex piece \<in> set (permutation c2)))
                         (if length (name cubie) = 2 then EDGE_PIECES else CORNER_PIECES),
                     erase_disabled := False, rotate_disabled := False,
                     handler_cubie := Some cubie\<rparr>)"

text \<open>
  The three click handlers that \<open>initPicker\<close> installs, for the cubie they captured.
  \<open>updateParity\<close> only writes the parity line of the page.
\<close>

definition button_onclick :: "cube3d \<Rightarrow> cubie \<Rightarrow> string \<Rightarrow> cube3d" where
  "button_onclick c cubie piece =
     (let stateIndex = getStateIndex (name cubie)
      in initPicker
           (c\<lparr>permutation := js_set (permutation c) stateIndex (getStateIndex piece),
              orientation := js_set (orientation c) stateIndex 0\<rparr>)
           cubie True)"

definition erase_onclick :: "cube3d \<Rightarrow> cubie \<Rightarrow> cube3d" where
  "erase_onclick c cubie =
     (let stateIndex = getStateIndex (name cubie)
      in initPicker (c\<lparr>permutation := js_set (permutation c) stateIndex (- 1)\<rparr>) cubie True)"

definition rotate_onclick :: "cube3d \<Rightarrow> cubie \<Rightarrow> cube3d" where
  "rotate_onclick c cubie =
     (let stateIndex = getStateIndex (name cubie)
      in case js_get (orientation c) stateIndex of
           None \<Rightarrow> c
         | Some ori \<Rightarrow>
             c\<lparr>orientation :=
                 js_set (orientation c) stateIndex
                   (if ori - 1 < 0 then int (length (name cubie)) - 1 else ori - 1)\<rparr>)"

text \<open>
  \<open>String.prototype.toLowerCase\<close> on the letters A to Z; a key name is compared with
  \<open>w\<close>, \<open>s\<close> and \<open>d\<close> only, and no other character lowers to one of these.
\<close>

definition toLowerCase :: "string \<Rightarrow> string" where
  "toLowerCase s =
     map (\<lambda>c. let n = (of_char c :: nat) in if 65 \<le> n \<and> n \<le> 90 then char_of (n + 32) else c) s"

text \<open>The camera-relative axes of \<open>getDirectionalTarget\<close>.\<close>

definition camRight :: "camera \<Rightarrow> vec3" where
  "camRight cam =
     (let camForward = worldDirection cam;
          camUp = normalize (up cam);
          right = normalize (crossVectors camForward camUp)
      in if lengthSq right < 1 / 10000 then quaternionX cam else right)"

definition screenUp :: "camera \<Rightarrow> vec3" where
  "screenUp cam = normalize (crossVectors (camRight cam) (worldDirection cam))"

definition vertical :: "string \<Rightarrow> bool" where
  "vertical direction = (direction = ''w'' \<or> direction = ''s'')"

definition primary :: "camera \<Rightarrow> string \<Rightarrow> vec3" where
  "primary cam direction =
     (if vertical direction
      then (if direction = ''w'' then screenUp cam else negate (screenUp cam))
      else (if direction = ''d'' then camRight cam else negate (camRight cam)))"

definition orthogonal :: "camera \<Rightarrow> string \<Rightarrow> vec3" where
  "orthogonal cam direction = (if vertical direction then camRight cam else screenUp cam)"

text \<open>
  The two scores of one candidate, \<open>None\<close> when no cubie of the scene has the name
  (\<open>if (!adj) continue\<close>).
\<close>

definition moveVec :: "cubie \<Rightarrow> cubie \<Rightarrow> vec3" where
  "moveVec currentCubie adj = normalize (subVectors (position adj) (position currentCubie))"

definition scorePrimary :: "camera \<Rightarrow> string \<Rightarrow> cubie \<Rightarrow> cubie \<Rightarrow> real" where
  "scorePrimary cam direction currentCubie adj =
     dot (moveVec currentCubie adj) (primary cam direction)"

definition scoreOrtho :: "camera \<Rightarrow> string \<Rightarrow> cubie \<Rightarrow> cubie \<Rightarrow> real" where
  "scoreOrtho cam direction currentCubie adj =
     \<bar>dot (moveVec currentCubie adj) (orthogonal cam direction)\<bar>"

definition find_cubie :: "cubie list \<Rightarrow> string \<Rightarrow> cubie option" where
  "find_cubie cubies n = find (\<lambda>c. name c = n) cubies"

text \<open>
  The loop over the candidates. \<open>best\<close> and \<open>bestScore\<close> change together: \<open>None\<close>
  is their initial pair (\<open>null\<close>, \<open>-Infinity\<close>), below every score.
\<close>

fun scan_candidates ::
    "cubie list \<Rightarrow> camera \<Rightarrow> string \<Rightarrow> cubie \<Rightarrow> string list \<Rightarrow> (string \<times> real) option \<Rightarrow>
     (string \<times> real) option" where
  "scan_candidates cubies cam direction currentCubie [] best = best"
| "scan_candidates cubies cam direction currentCubie (n # candidates) best =
     (case find_cubie cubies n of
        None \<Rightarrow> scan_candidates cubies cam direction currentCubie candidates best
      | Some adj \<Rightarrow>
          let sp = scorePrimary cam direction currentCubie adj;
              so = scoreOrtho cam direction currentCubie adj
          in if (case best of None \<Rightarrow> True | Some (b, bestScore) \<Rightarrow> sp > bestScore) \<and> sp > so
             then scan_candidates cubies cam direction currentCubie candidates (Some (n, sp))
             else scan_candidates cubies cam direction currentCubie candidates best)"

definition getDirectionalTarget :: "cubie list \<Rightarrow> cubie \<Rightarrow> string \<Rightarrow> camera \<Rightarrow> string option" where
  "getDirectionalTarget cubies currentCubie direction cam =
     (let direction = toLowerCase direction
      in case map_of ADJACENCY_MAP (name currentCubie) of
           None \<Rightarrow> None
         | Some candidates \<Rightarrow>
             (case scan_candidates cubies cam direction currentCubie candidates None of
                None \<Rightarrow> None
              | Some (best, bestScore) \<Rightarrow> if bestScore > 1 / 2 then Some best else None))"

definition navigateWASD :: "cube3d \<Rightarrow> string \<Rightarrow> camera \<Rightarrow> cube3d" where
  "navigateWASD c direction cam =
     (if \<not> selection_visible c then c
      else case find (\<lambda>cubie. position cubie = selection_position c) (savedCubies c) of
             None \<Rightarrow> c
           | Some currentCubie \<Rightarrow>
               if isCenterName (name currentCubie) then c
               else case map_of ADJACENCY_MAP (name currentCubie) of
                      None \<Rightarrow> c
                    | Some adjacent \<Rightarrow>
                        if adjacent = [] then c
                        else case getDirectionalTarget (savedCubies c) currentCubie direction cam of
                               None \<Rightarrow> c
                             | Some target \<Rightarrow>
                                 if target = [] then c
                                 else case find_cubie (savedCubies c) target of
                                        None \<Rightarrow> c
                                      | Some targetCubie \<Rightarrow> initPicker c targetCubie False)"

text \<open>
  What can happen to the object between two guesses: a click on a cubie of the scene, a
  click on an enabled button of the picker, on the erase or the rotate button when enabled,
  and a navigation key. A disabled button fires no handler.
\<close>

datatype ui_event =
    ClickCubie cubie
  | ClickPiece string
  | ClickErase
  | ClickRotate
  | PressKey string camera

definition ui_step :: "cube3d \<Rightarrow> ui_event \<Rightarrow> cube3d" where
  "ui_step c ev =
     (case ev of
        ClickCubie cubie \<Rightarrow> initPicker c cubie False
      | ClickPiece piece \<Rightarrow>
          (case handler_cubie c of
             Some cubie \<Rightarrow> if (piece, False) \<in> set (picker c) then button_onclick c cubie piece else c
           | None \<Rightarrow> c)
      | ClickErase \<Rightarrow>
          (case handler_cubie c of
             Some cubie \<Rightarrow> if erase_disabled c then c else erase_onclick c cubie
           | None \<Rightarrow> c)
      | ClickRotate \<Rightarrow>
          (case handler_cubie c of
             Some cubie \<Rightarrow> if rotate_disabled c then c else rotate_onclick c cubie
           | None \<Rightarrow> c)
      | PressKey key cam \<Rightarrow> navigateWASD c key cam)"

definition ui_run :: "cube3d \<Rightarrow> ui_event list \<Rightarrow> cube3d" where
  "ui_run c evs = foldl ui_step c evs"

text \<open>
  The orientation range: 20 entries, those of the edge slots 0..11 in {0, 1} and those of
  the corner slots 12..19 in {0, 1, 2}.
\<close>

definition orientation_in_range :: "int list \<Rightarrow> bool" where
  "orientation_in_range ori =
     (length ori = 20 \<and>
      list_all (\<lambda>i. 0 \<le> ori ! i \<and> ori ! i < (if i < 12 then 2 else 3)) [0..<20])"

text \<open>
  Modelled from the spec: class Cubie (cubie.js) is not among the sources. The constructor
  of Cube3D creates the 27 cubies with \<open>new Cubie(i - 1, j - 1, k - 1, CUBIES[i * 9 + j * 3 + k])\<close>;
  Cubie is taken to place its mesh at the grid point it is given and to keep the name.
  The cubie list below is used in the examples only.
\<close>

definition CUBIES :: "string list" where
  "CUBIES =
     [''DLB'', ''DL'', ''DFL'', ''BL'', ''L'', ''FL'', ''UBL'', ''UL'', ''ULF'',
      ''DB'', ''D'', ''DF'', ''B'', '''', ''F'', ''UB'', ''U'', ''UF'',
      ''DBR'', ''DR'', ''DRF'', ''BR'', ''R'', ''FR'', ''URB'', ''UR'', ''UFR'']"

definition constructed_cubies :: "cubie list" where
  "constructed_cubies =
     map (\<lambda>idx. \<lparr>name = CUBIES ! idx,
                  position = (real (idx div 9) - 1, real (idx div 3 mod 3) - 1, real (idx mod 3) - 1)\<rparr>)
       [0..<27]"

text \<open>
  The object after its constructor: the field initialisers, the answer split in two, the
  selection mesh hidden at the origin, no handler installed and nothing stored yet. The
  erase and rotate buttons are taken as disabled until a cubie is selected.
\<close>

definition new_cube :: "int list \<Rightarrow> cube3d" where
  "new_cube answerState =
     \<lparr>savedCubies = constructed_cubies,
      permutation = [0, 1, 2, 3, 4, 5, 6, 7, 8, 9, 10, 11, 12, 13, 14, 15, 16, 17, 18, 19],
      orientation = replicate 20 0,
      answerPermutation = take 20 answerState,
      answerOrientation = drop 20 answerState,
      selection_position = (0, 0, 0),
      selection_visible = False,
      selection_opacity = 1 / 2,
      picker = [],
      erase_disabled = True,
      rotate_disabled = True,
      handler_cubie = None,
      stored_permutation = None,
      stored_orientation = None\<rparr>"

text \<open>
  Cubies, click sequences and a camera for the examples: select the edge UF and rotate it,
  select the corner UFR and rotate it twice; then erase the corner and assign UFR again.
  The camera looks along -z with +y up.
\<close>

definition cubie_UF :: cubie where
  "cubie_UF = \<lparr>name = ''UF'', position = (0, 1, 1)\<rparr>"

definition cubie_UFR :: cubie where
  "cubie_UFR = \<lparr>name = ''UFR'', position = (1, 1, 1)\<rparr>"

definition rotate_clicks :: "ui_event list" where
  "rotate_clicks =
     [ClickCubie cubie_UF, ClickRotate, ClickCubie cubie_UFR, ClickRotate, ClickRotate]"

definition reassign_clicks :: "ui_event list" where
  "reassign_clicks = rotate_clicks @ [ClickErase, ClickPiece ''UFR'']"



section \<open>The guess button (check)\<close>

text \<open>
  What one call of \<open>check\<close> decides: the guess button shakes, the game is over, the
  guess is taken (with the result of the win test), or the projector throws after the
  guess was counted.
\<close>

datatype check_outcome = Shake | GameOver | Guessed bool | Thrown js_error

text \<open>
  \<open>check\<close> with the object, the guess counter and \<open>answerColors\<close> it reads, and
  \<open>verify\<close> for \<open>solver.verifyState()\<close> applied to the state just assigned. It
  returns the outcome, the object and the counter. An accepted guess is saved and
  \<open>initPicker\<close> is called with the selection mesh, an object whose name is the empty
  string. The drawing of the feedback, the statistics and the delayed celebration are left
  out.
\<close>

definition check ::
    "(int list \<Rightarrow> bool) \<Rightarrow> string list \<Rightarrow> cube3d \<Rightarrow> int \<Rightarrow> check_outcome \<times> cube3d \<times> int" where
  "check verify answerColors cube guesses =
     (let currentState = permutation cube @ orientation cube
      in if - 1 \<in> set (permutation cube) \<or> \<not> verify currentState then (Shake, cube, guesses)
         else if guesses \<ge> 6 then
           (GameOver, cube\<lparr>picker := [], selection_visible := False\<rparr>, guesses)
         else
           let saved = cube\<lparr>stored_permutation := Some (permutation cube),
                             stored_orientation := Some (orientation cube)\<rparr>;
               cube' = initPicker saved \<lparr>name = [], position = selection_position saved\<rparr> False
           in case stateToFaceletColors currentState of
                Inl e \<Rightarrow> (Thrown e, cube', guesses + 1)
              | Inr currentColors \<Rightarrow>
                  (Guessed (toString currentColors = toString answerColors), cube', guesses + 1))"

text \<open>
  Every one of the 20 slots of a state holds a value between 0 and 19: the entry exists in
  the first 20 places of the flat array and names a piece of \<open>CUBIE_ORDER\<close>.
\<close>

definition entries_in_range :: "int list \<Rightarrow> bool" where
  "entries_in_range state =
     list_all (\<lambda>i. case js_get (take 20 state) (int i) of
                     None \<Rightarrow> False
                   | Some p \<Rightarrow> 0 \<le> p \<and> p < 20) [0..<20]"

text \<open>
  Guesses for the examples. One is complete and role-correct with a single flipped edge. The
  other three are malformed: slot 19 holds the value 20; the edges UF, UR and the corners
  UFR, URB sit in each other's slots; the orientation array has 19 entries.
\<close>

definition flipped_cube :: cube3d where
  "flipped_cube =
     (new_cube solved_state)
       \<lparr>orientation := [1, 0, 0, 0, 0, 0, 0, 0, 0, 0, 0, 0, 0, 0, 0, 0, 0, 0, 0, 0]\<rparr>"

definition out_of_range_cube :: cube3d where
  "out_of_range_cube =
     (new_cube solved_state)
       \<lparr>permutation := [0, 1, 2, 3, 4, 5, 6, 7, 8, 9, 10, 11, 12, 13, 14, 15, 16, 17, 18, 20]\<rparr>"

definition role_crossing_cube :: cube3d where
  "role_crossing_cube =
     (new_cube solved_state)
       \<lparr>permutation := [12, 13, 2, 3, 4, 5, 6, 7, 8, 9, 10, 11, 0, 1, 14, 15, 16, 17, 18, 19]\<rparr>"

definition short_cube :: cube3d where
  "short_cube = (new_cube solved_state)\<lparr>orientation := replicate 19 0\<rparr>"

section \<open>The adjacency table\<close>

lemma neighbours_pairs: "b \<in> set (neighbours a) \<Longrightarrow> (a, b) \<in> set adjacency_pairs"
proof -
  assume b: "b \<in> set (neighbours a)"
  then obtain ns where ns: "map_of ADJACENCY_MAP a = Some ns" and "b \<in> set ns"
    by (cases "map_of ADJACENCY_MAP a") (auto simp: neighbours_def)
  from ns have "(a, ns) \<in> set ADJACENCY_MAP" by (rule map_of_SomeD)
  with \<open>b \<in> set ns\<close> show ?thesis
    unfolding adjacency_pairs_def by force
qed

lemma adjacency_pairs_ok: "list_all adjacent_ok adjacency_pairs"
  by code_simp

lemma neighbours_ok: "b \<in> set (neighbours a) \<Longrightarrow> adjacent_ok (a, b)"
  using adjacency_pairs_ok neighbours_pairs [of b a] by (simp add: list_all_iff)

text \<open>
  Claim C10. The adjacency table is bipartite (a listed neighbour of a two-letter edge name
  is a three-letter corner name and the reverse, never edge to edge or corner to corner),
  symmetric (B is listed for A exactly when A is listed for B), and agrees with the
  coordinate table: the grid coordinates of two adjacent pieces differ by exactly 1 in
  exactly one of the three axes.
\<close>

theorem adjacency_bipartite_symmetric_unit:
  "(b \<in> set (neighbours a) \<longleftrightarrow> a \<in> set (neighbours b)) \<and>
   (b \<in> set (neighbours a) \<longrightarrow>
      ((length a = 2 \<and> length b = 3) \<or> (length a = 3 \<and> length b = 2)) \<and>
      (\<exists>ca cb. coordinates a = Some ca \<and> coordinates b = Some cb \<and> unit_axis_step ca cb))"
proof -
  have sym: "y \<in> set (neighbours x) \<Longrightarrow> x \<in> set (neighbours y)" for x y
    using neighbours_ok [of y x] by (simp add: adjacent_ok_def)
  have rest: "b \<in> set (neighbours a) \<Longrightarrow>
      ((length a = 2 \<and> length b = 3) \<or> (length a = 3 \<and> length b = 2)) \<and>
      (\<exists>ca cb. coordinates a = Some ca \<and> coordinates b = Some cb \<and> unit_axis_step ca cb)"
    using neighbours_ok [of b a]
    by (auto simp: adjacent_ok_def split: option.splits)
  from sym rest show ?thesis by blast
qed

theorem adjacency_bipartite_symmetric_unit_witness:
  "''UFR'' \<in> set (neighbours ''UF'') \<and> ''UF'' \<in> set (neighbours ''UFR'') \<and>
   length ''UF'' = 2 \<and> length ''UFR'' = 3 \<and>
   coordinates ''UF'' = Some (1, 2, 2) \<and> coordinates ''UFR'' = Some (2, 2, 2) \<and>
   unit_axis_step (1, 2, 2) (2, 2, 2)"
  using adjacency_bipartite_symmetric_unit [of "''UFR''" "''UF''"]
  by (simp add: neighbours_def coordinates_def ADJACENCY_MAP_def CUBIE_COORDINATES_def)

section \<open>The facelet projector\<close>

lemma facelet_pairs_ok: "list_all pair_ok facelet_pairs"
  by code_simp

lemma cubie_order_lengths:
  "list_all (\<lambda>p. length (CUBIE_ORDER ! p) = (if p < 12 then 2 else 3)) [0..<20]"
  by code_simp

lemma length_CUBIE_ORDER: "length CUBIE_ORDER = 20"
  by (simp add: CUBIE_ORDER_def)

lemma name_length:
  "0 \<le> p \<Longrightarrow> p < 20 \<Longrightarrow> length (CUBIE_ORDER ! nat p) = (if p < 12 then 2 else 3)"
proof -
  assume "0 \<le> p" "p < 20"
  then have "nat p \<in> set [0..<20]" by simp
  with cubie_order_lengths
  have "length (CUBIE_ORDER ! nat p) = (if nat p < 12 then 2 else 3)"
    unfolding list_all_iff by blast
  with \<open>0 \<le> p\<close> show ?thesis by (simp add: nat_less_iff)
qed

lemma push_colors_map:
  "(\<And>x. x \<in> set xs \<Longrightarrow> f x = Inr (g x)) \<Longrightarrow> push_colors (map f xs) = Inr (map g xs)"
  by (induction xs) simp_all

lemma push_colors_length: "push_colors rs = Inr cs \<Longrightarrow> length cs = length rs"
proof (induction rs arbitrary: cs)
  case Nil
  then show ?case by simp
next
  case (Cons r rs)
  then show ?case by (cases r) (auto split: sum.splits)
qed

lemma complete_perm_range:
  assumes "complete_state st" "i < 20"
  shows "0 \<le> st ! i \<and> st ! i < 20"
proof -
  from assms have len: "length st = 40" by (simp add: complete_state_def)
  with assms(2) have "take 20 st ! i \<in> set (take 20 st)" by (intro nth_mem) simp
  with assms(2) have "st ! i \<in> set (take 20 st)" by simp
  moreover from assms have "set (take 20 st) = set [0..19]"
    unfolding complete_state_def by (metis set_mset_mset)
  ultimately show ?thesis by simp
qed

lemma complete_edge_ori:
  assumes "complete_state st" "i < 12"
  shows "st ! (20 + i) = 0 \<or> st ! (20 + i) = 1"
proof -
  from assms have len: "length st = 40" by (simp add: complete_state_def)
  from assms have all: "list_all (\<lambda>ori. ori = 0 \<or> ori = 1) (take 12 (drop 20 st))"
    by (simp add: complete_state_def)
  from len assms(2) have "take 12 (drop 20 st) ! i \<in> set (take 12 (drop 20 st))"
    by (intro nth_mem) simp
  with all have "take 12 (drop 20 st) ! i = 0 \<or> take 12 (drop 20 st) ! i = 1"
    unfolding list_all_iff by blast
  with len assms(2) show ?thesis by simp
qed

lemma complete_corner_ori:
  assumes "complete_state st" "12 \<le> i" "i < 20"
  shows "st ! (20 + i) = 0 \<or> st ! (20 + i) = 1 \<or> st ! (20 + i) = 2"
proof -
  from assms have len: "length st = 40" by (simp add: complete_state_def)
  from assms have all: "list_all (\<lambda>ori. ori = 0 \<or> ori = 1 \<or> ori = 2) (drop 32 st)"
    by (simp add: complete_state_def)
  from len assms(2,3) have "drop 32 st ! (i - 12) \<in> set (drop 32 st)"
    by (intro nth_mem) simp
  with all have "drop 32 st ! (i - 12) = 0 \<or> drop 32 st ! (i - 12) = 1 \<or> drop 32 st ! (i - 12) = 2"
    unfolding list_all_iff by blast
  with len assms(2,3) show ?thesis by simp
qed

lemma facelet_color_complete:
  assumes st: "complete_state st" and ok: "pair_ok (face, facelet)"
  shows "facelet_color (take 20 st) (drop 20 st) face facelet =
           Inr (if length facelet = 1 then [face] else piece_color st face facelet)"
proof (cases "length facelet = 1")
  case True
  with ok show ?thesis by (simp add: facelet_color_def pair_ok_def)
next
  case False
  define slot where "slot = nat (getStateIndex facelet)"
  from ok False have idx: "getStateIndex facelet = int slot" and slot: "slot < 20"
    and base: "0 \<le> indexOf facelet face"
    and len: "length facelet = (if slot < 12 then 2 else 3)"
    by (auto simp: pair_ok_def slot_def split: if_splits)
  from st have l40: "length st = 40" by (simp add: complete_state_def)
  from complete_perm_range [OF st slot] have p: "0 \<le> st ! slot" "st ! slot < 20" by simp_all
  have nl: "length (CUBIE_ORDER ! nat (st ! slot)) = (if st ! slot < 12 then 2 else 3)"
    using name_length [OF p] .
  have g1: "js_get (take 20 st) (int slot) = Some (st ! slot)"
    using slot l40 by (simp add: js_get_def)
  have g2: "js_get CUBIE_ORDER (st ! slot) = Some (CUBIE_ORDER ! nat (st ! slot))"
    using p by (simp add: js_get_def length_CUBIE_ORDER)
  have g3: "js_get (drop 20 st) (int slot) = Some (st ! (20 + slot))"
    using slot l40 by (simp add: js_get_def)
  show ?thesis
  proof (cases "slot < 12")
    case True
    with complete_edge_ori [OF st] have "st ! (20 + slot) = 0 \<or> st ! (20 + slot) = 1" by simp
    then have "0 \<le> indexOf facelet face + st ! (20 + slot)" using base by auto
    with True len False nl show ?thesis
      by (simp add: facelet_color_def piece_color_def idx g1 g2 g3 js_rem_def Let_def)
  next
    case c: False
    with complete_corner_ori [OF st, of slot] slot
    have "st ! (20 + slot) = 0 \<or> st ! (20 + slot) = 1 \<or> st ! (20 + slot) = 2" by simp
    then have "0 \<le> indexOf facelet face + (3 - st ! (20 + slot))" using base by auto
    with c len False nl show ?thesis
      by (simp add: facelet_color_def piece_color_def idx g1 g2 g3 js_rem_def Let_def)
  qed
qed

lemma stateToFaceletColors_complete:
  assumes "complete_state st"
  shows "stateToFaceletColors st = Inr (map (facelet_colour_of st) facelet_pairs)"
proof -
  have "facelet_color (take 20 st) (drop 20 st) (fst fp) (snd fp) = Inr (facelet_colour_of st fp)"
    if "fp \<in> set facelet_pairs" for fp
  proof -
    from that facelet_pairs_ok have "pair_ok (fst fp, snd fp)"
      unfolding list_all_iff by simp
    from facelet_color_complete [OF assms this] show ?thesis
      by (simp add: facelet_colour_of_def case_prod_beta)
  qed
  then have "push_colors (map (\<lambda>fp. facelet_color (take 20 st) (drop 20 st) (fst fp) (snd fp))
      facelet_pairs) = Inr (map (facelet_colour_of st) facelet_pairs)"
    by (rule push_colors_map)
  then show ?thesis
    by (simp add: stateToFaceletColors_def Let_def split_def)
qed

lemma facelet_pairs_nth_all:
  "list_all (\<lambda>f. list_all (\<lambda>k.
      facelet_pairs ! (9 * f + k) = (faces ! f, face_facelets (faces ! f) ! k) \<and>
      (length (face_facelets (faces ! f) ! k) = 1 \<longleftrightarrow> k = 4)) [0..<9]) [0..<6]"
  by code_simp

lemma facelet_pairs_nth:
  assumes "f < 6" "k < 9"
  shows "facelet_pairs ! (9 * f + k) = (faces ! f, face_facelets (faces ! f) ! k)"
    and "length (face_facelets (faces ! f) ! k) = 1 \<longleftrightarrow> k = 4"
  using facelet_pairs_nth_all assms unfolding list_all_iff by auto

lemma length_facelet_pairs: "length facelet_pairs = 54"
  by code_simp

section \<open>The stickers-correct count\<close>

lemma count_matches_filter:
  "count_matches gc ac is n =
     n + length (filter (\<lambda>i. i mod 9 \<noteq> 4 \<and> js_get gc (int i) = js_get ac (int i)) is)"
  by (induction "is" arbitrary: n) simp_all

lemma stateToFaceletColors_length:
  "stateToFaceletColors st = Inr cs \<Longrightarrow> length cs = 54"
  by (auto simp: stateToFaceletColors_def Let_def length_facelet_pairs dest!: push_colors_length)

lemma non_centre_count: "length (filter (\<lambda>i. i mod 9 \<noteq> 4) [0..<54]) = 48"
  by code_simp

lemma stickers_count_of_colours:
  assumes g: "stateToFaceletColors (guessPermutation @ guessOrientation) = Inr guessColors"
    and a: "stateToFaceletColors answerState = Inr answerColors"
  shows "countSolvedStickers guessPermutation guessOrientation answerColors =
           Inr (card {i. i < 54 \<and> i mod 9 \<noteq> 4 \<and> guessColors ! i = answerColors ! i} + 6) \<and>
         6 \<le> card {i. i < 54 \<and> i mod 9 \<noteq> 4 \<and> guessColors ! i = answerColors ! i} + 6 \<and>
         card {i. i < 54 \<and> i mod 9 \<noteq> 4 \<and> guessColors ! i = answerColors ! i} + 6 \<le> 54"
proof -
  let ?P = "\<lambda>i. i mod 9 \<noteq> 4 \<and> guessColors ! i = answerColors ! i"
  let ?Q = "\<lambda>i. i mod 9 \<noteq> 4 \<and> js_get guessColors (int i) = js_get answerColors (int i)"
  from g a have lg: "length guessColors = 54" and la: "length answerColors = 54"
    by (simp_all add: stateToFaceletColors_length)
  have "filter ?Q [0..<54] = filter ?P [0..<54]"
    by (rule filter_cong) (simp_all add: js_get_def lg la)
  then have cnt: "count_matches guessColors answerColors [0..<54] 0 = length (filter ?P [0..<54])"
    by (simp add: count_matches_filter)
  have "length (filter ?P [0..<54]) = card {i. i < length [0..<54] \<and> ?P ([0..<54] ! i)}"
    by (rule length_filter_conv_card)
  also have "{i. i < length [0..<54] \<and> ?P ([0..<54] ! i)} = {i. i < 54 \<and> ?P i}"
    by auto
  finally have card: "length (filter ?P [0..<54]) = card {i. i < 54 \<and> ?P i}" .
  have "length (filter ?P [0..<54]) \<le> length (filter (\<lambda>i. i mod 9 \<noteq> 4) [0..<54])"
  proof -
    have "filter ?P [0..<54] = filter (\<lambda>i. guessColors ! i = answerColors ! i) (filter (\<lambda>i. i mod 9 \<noteq> 4) [0..<54])"
      by (simp add: conj_commute)
    then show ?thesis by (metis length_filter_le)
  qed
  with non_centre_count have le: "length (filter ?P [0..<54]) \<le> 48" by simp
  from cnt card le g show ?thesis
    by (simp add: countSolvedStickers_def)
qed

text \<open>
  Claim C6. For every guess and every answer, the "stickers correct" count is the number of
  non-centre positions (the 48 positions i below 54 with i mod 9 other than 4) where the
  colour projected from the guess equals the colour projected from the answer, plus exactly
  6 for the centres, and so lies between 6 and 54. (A guess for which the projector throws
  has no projected colours; the count throws with it.)
\<close>

theorem stickers_correct_count:
  assumes "stateToFaceletColors answerState = Inr answerColors"
  shows "(\<forall>guessColors.
            stateToFaceletColors (guessPermutation @ guessOrientation) = Inr guessColors \<longrightarrow>
            countSolvedStickers guessPermutation guessOrientation answerColors =
              Inr (card {i. i < 54 \<and> i mod 9 \<noteq> 4 \<and> guessColors ! i = answerColors ! i} + 6) \<and>
            6 \<le> card {i. i < 54 \<and> i mod 9 \<noteq> 4 \<and> guessColors ! i = answerColors ! i} + 6 \<and>
            card {i. i < 54 \<and> i mod 9 \<noteq> 4 \<and> guessColors ! i = answerColors ! i} + 6 \<le> 54) \<and>
         (\<forall>e. stateToFaceletColors (guessPermutation @ guessOrientation) = Inl e \<longrightarrow>
            countSolvedStickers guessPermutation guessOrientation answerColors = Inl e)"
proof -
  have "countSolvedStickers guessPermutation guessOrientation answerColors = Inl e"
    if "stateToFaceletColors (guessPermutation @ guessOrientation) = Inl e" for e
    using that by (simp add: countSolvedStickers_def)
  with stickers_count_of_colours [OF _ assms] show ?thesis by blast
qed

theorem stickers_correct_count_witness:
  "stateToFaceletColors (twisted_permutation @ twisted_orientation) = Inr twisted_colors \<and>
   stateToFaceletColors solved_state = Inr solved_colors \<and>
   countSolvedStickers twisted_permutation twisted_orientation solved_colors = Inr 46 \<and>
   card {i. i < 54 \<and> i mod 9 \<noteq> 4 \<and> twisted_colors ! i = solved_colors ! i} + 6 = 46"
proof -
  have g: "stateToFaceletColors (twisted_permutation @ twisted_orientation) = Inr twisted_colors"
    by code_simp
  have a: "stateToFaceletColors solved_state = Inr solved_colors"
    by code_simp
  have c: "countSolvedStickers twisted_permutation twisted_orientation solved_colors = Inr 46"
    by code_simp
  note t = stickers_correct_count
    [OF a, where guessPermutation = twisted_permutation and guessOrientation = twisted_orientation]
  note t [THEN conjunct1, rule_format, OF g, THEN conjunct1]
  with c have "card {i. i < 54 \<and> i mod 9 \<noteq> 4 \<and> twisted_colors ! i = solved_colors ! i} + 6 = 46"
    by simp
  with g a c show ?thesis by (intro conjI)
qed

section \<open>Facelet equality and state equality (the win test of check)\<close>

lemma slots_ok: "list_all slot_ok [0..<20]"
  by code_simp

lemma edge_views_distinct:
  "distinct (map (\<lambda>(p, ori). slot_view 2 p ori) (List.product [0..11] [0, 1]))"
  by code_simp

lemma corner_views_distinct:
  "distinct (map (\<lambda>(p, ori). slot_view 3 p ori) (List.product [12..19] [0, 1, 2]))"
  by code_simp

lemma mset_split: "mset [0..11] + mset [12..19] = mset [0..(19::int)]"
  by code_simp

lemma toString_inj:
  "\<forall>c\<in>set xs. length c = 1 \<Longrightarrow> \<forall>c\<in>set ys. length c = 1 \<Longrightarrow>
   toString xs = toString ys \<Longrightarrow> xs = ys"
proof (induction xs arbitrary: ys rule: toString.induct)
  case 1
  then show ?case by (cases ys rule: toString.cases) auto
next
  case (2 c)
  then show ?case by (cases ys rule: toString.cases) auto
next
  case (3 c d cs)
  show ?case
  proof (cases ys rule: toString.cases)
    case 1
    with 3 show ?thesis by auto
  next
    case (2 c')
    with 3 show ?thesis by auto
  next
    case (3 c' d' cs')
    with "3.prems" have "length c = length c'" by simp
    with 3 "3.prems" have "c = c'" "toString (d # cs) = toString (d' # cs')" by auto
    with "3.IH" [of "d' # cs'"] "3.prems" 3 show ?thesis by auto
  qed
qed

lemma role_correct_complete: "role_correct st \<Longrightarrow> complete_state st"
proof -
  assume r: "role_correct st"
  have "take 20 st = take 12 st @ take 8 (drop 12 st)"
    using take_add [of 12 8 st] by simp
  then have split: "mset (take 20 st) = mset (take 12 st) + mset (take 8 (drop 12 st))"
    by simp
  from r have e: "mset (take 12 st) = mset [0..11]"
    and c: "mset (take 8 (drop 12 st)) = mset [12..19]"
    unfolding role_correct_def by blast+
  have "mset (take 20 st) = mset [0..19]"
    by (simp only: split e c mset_split)
  with r show ?thesis unfolding role_correct_def complete_state_def by blast
qed

lemma role_correct_edge:
  assumes "role_correct st" "i < 12"
  shows "0 \<le> st ! i \<and> st ! i < 12"
proof -
  from assms have len: "length st = 40" by (simp add: role_correct_def)
  with assms(2) have "take 12 st ! i \<in> set (take 12 st)" by (intro nth_mem) simp
  with assms(2) have "st ! i \<in> set (take 12 st)" by simp
  moreover from assms have "mset (take 12 st) = mset [0..11]"
    unfolding role_correct_def by blast
  then have "set (take 12 st) = set [0..11]" by (rule mset_eq_setD)
  ultimately have "st ! i \<in> {0..11}" by (simp only: set_upto)
  then show ?thesis by simp
qed

lemma role_correct_corner:
  assumes "role_correct st" "12 \<le> i" "i < 20"
  shows "12 \<le> st ! i \<and> st ! i < 20"
proof -
  from assms have len: "length st = 40" by (simp add: role_correct_def)
  with assms(2,3) have "take 8 (drop 12 st) ! (i - 12) \<in> set (take 8 (drop 12 st))"
    by (intro nth_mem) simp
  with assms(2,3) len have "st ! i \<in> set (take 8 (drop 12 st))" by simp
  moreover from assms have "mset (take 8 (drop 12 st)) = mset [12..19]"
    unfolding role_correct_def by blast
  then have "set (take 8 (drop 12 st)) = set [12..19]" by (rule mset_eq_setD)
  ultimately have "st ! i \<in> {12..19}" by (simp only: set_upto)
  then show ?thesis by simp
qed

lemma slot_view_projection:
  assumes i: "i < 20"
  shows "slot_view (length (CUBIE_ORDER ! i)) (st ! i) (st ! (20 + i)) =
           map (\<lambda>j. facelet_colour_of st (CUBIE_ORDER ! i ! j, CUBIE_ORDER ! i))
             [0..<length (CUBIE_ORDER ! i)]"
proof -
  let ?n = "CUBIE_ORDER ! i"
  from i slots_ok have ok: "slot_ok i" unfolding list_all_iff by simp
  then have idx: "getStateIndex ?n = int i" and len: "length ?n = (if i < 12 then 2 else 3)"
    and pos: "\<And>j. j < length ?n \<Longrightarrow> indexOf ?n (?n ! j) = int j"
    by (simp_all add: slot_ok_def Let_def list_all_iff)
  from len have ne: "length ?n \<noteq> Suc 0" by simp
  show ?thesis
    unfolding slot_view_def
    by (rule map_cong) (simp_all add: facelet_colour_of_def piece_color_def ne idx pos Let_def)
qed

lemma slot_faces_in_table:
  assumes "i < 20" "j < length (CUBIE_ORDER ! i)"
  shows "(CUBIE_ORDER ! i ! j, CUBIE_ORDER ! i) \<in> set facelet_pairs"
proof -
  from assms(1) slots_ok have "slot_ok i" unfolding list_all_iff by simp
  with assms(2) show ?thesis by (simp add: slot_ok_def Let_def list_all_iff)
qed

lemma slot_length: "i < 20 \<Longrightarrow> length (CUBIE_ORDER ! i) = (if i < 12 then 2 else 3)"
  using slots_ok unfolding list_all_iff by (simp add: slot_ok_def Let_def)

lemma edge_view_inj:
  assumes "0 \<le> p" "p < 12" "0 \<le> q" "q < 12" "x = 0 \<or> x = 1" "y = 0 \<or> y = 1"
    and "slot_view 2 p x = slot_view 2 q y"
  shows "p = q \<and> x = y"
proof -
  let ?f = "\<lambda>(p, ori). slot_view 2 p ori"
  let ?S = "List.product [0..11] [0, 1 :: int]"
  have inj: "inj_on ?f (set ?S)"
    using edge_views_distinct by (simp only: distinct_map)
  from assms have "p \<in> {0..11}" "q \<in> {0..11}" by simp_all
  then have "p \<in> set [0..11]" "q \<in> set [0..11]" by (simp_all only: set_upto)
  moreover from assms have "x \<in> set [0, 1]" "y \<in> set [0, 1]" by auto
  ultimately have "(p, x) \<in> set ?S" "(q, y) \<in> set ?S"
    by (simp_all only: set_product mem_Sigma_iff simp_thms)
  moreover from assms have "?f (p, x) = ?f (q, y)" by simp
  ultimately have "(p, x) = (q, y)" using inj unfolding inj_on_def by blast
  then show ?thesis by simp
qed

lemma corner_view_inj:
  assumes "12 \<le> p" "p < 20" "12 \<le> q" "q < 20" "x = 0 \<or> x = 1 \<or> x = 2" "y = 0 \<or> y = 1 \<or> y = 2"
    and "slot_view 3 p x = slot_view 3 q y"
  shows "p = q \<and> x = y"
proof -
  let ?f = "\<lambda>(p, ori). slot_view 3 p ori"
  let ?S = "List.product [12..19] [0, 1, 2 :: int]"
  have inj: "inj_on ?f (set ?S)"
    using corner_views_distinct by (simp only: distinct_map)
  from assms have "p \<in> {12..19}" "q \<in> {12..19}" by simp_all
  then have "p \<in> set [12..19]" "q \<in> set [12..19]" by (simp_all only: set_upto)
  moreover from assms have "x \<in> set [0, 1, 2]" "y \<in> set [0, 1, 2]" by auto
  ultimately have "(p, x) \<in> set ?S" "(q, y) \<in> set ?S"
    by (simp_all only: set_product mem_Sigma_iff simp_thms)
  moreover from assms have "?f (p, x) = ?f (q, y)" by simp
  ultimately have "(p, x) = (q, y)" using inj unfolding inj_on_def by blast
  then show ?thesis by simp
qed

lemma colours_determine_slot:
  assumes a: "role_correct a" and b: "role_correct b"
    and eq: "map (facelet_colour_of a) facelet_pairs = map (facelet_colour_of b) facelet_pairs"
    and i: "i < 20"
  shows "a ! i = b ! i \<and> a ! (20 + i) = b ! (20 + i)"
proof -
  let ?n = "CUBIE_ORDER ! i"
  from eq have pt: "\<And>fp. fp \<in> set facelet_pairs \<Longrightarrow> facelet_colour_of a fp = facelet_colour_of b fp"
    by (simp add: map_eq_conv)
  have "map (\<lambda>j. facelet_colour_of a (?n ! j, ?n)) [0..<length ?n] =
        map (\<lambda>j. facelet_colour_of b (?n ! j, ?n)) [0..<length ?n]"
    by (rule map_cong) (simp_all add: pt slot_faces_in_table [OF i])
  then have v: "slot_view (length ?n) (a ! i) (a ! (20 + i)) =
                slot_view (length ?n) (b ! i) (b ! (20 + i))"
    by (simp only: slot_view_projection [OF i])
  show ?thesis
  proof (cases "i < 12")
    case True
    with v i have "slot_view 2 (a ! i) (a ! (20 + i)) = slot_view 2 (b ! i) (b ! (20 + i))"
      by (simp add: slot_length)
    with role_correct_edge [OF a True] role_correct_edge [OF b True]
      complete_edge_ori [OF role_correct_complete [OF a] True]
      complete_edge_ori [OF role_correct_complete [OF b] True]
    show ?thesis by (intro edge_view_inj) simp_all
  next
    case False
    then have ge: "12 \<le> i" by simp
    with v i have "slot_view 3 (a ! i) (a ! (20 + i)) = slot_view 3 (b ! i) (b ! (20 + i))"
      by (simp add: slot_length)
    with role_correct_corner [OF a ge i] role_correct_corner [OF b ge i]
      complete_corner_ori [OF role_correct_complete [OF a] ge i]
      complete_corner_ori [OF role_correct_complete [OF b] ge i]
    show ?thesis by (intro corner_view_inj) simp_all
  qed
qed

lemma colours_determine_state:
  assumes a: "role_correct a" and b: "role_correct b"
    and eq: "map (facelet_colour_of a) facelet_pairs = map (facelet_colour_of b) facelet_pairs"
  shows "a = b"
proof (rule nth_equalityI)
  from a b show "length a = length b" by (simp add: role_correct_def)
next
  fix k assume "k < length a"
  with a have k: "k < 40" by (simp add: role_correct_def)
  show "a ! k = b ! k"
  proof (cases "k < 20")
    case True
    from colours_determine_slot [OF a b eq True] show ?thesis by simp
  next
    case False
    with k have "k - 20 < 20" by simp
    from colours_determine_slot [OF a b eq this] False show ?thesis by simp
  qed
qed

lemma colour_length:
  assumes st: "complete_state st" and fp: "fp \<in> set facelet_pairs"
  shows "length (facelet_colour_of st fp) = 1"
proof (cases "length (snd fp) = 1")
  case True
  then show ?thesis by (simp add: facelet_colour_of_def split_def)
next
  case False
  from fp facelet_pairs_ok have "pair_ok (fst fp, snd fp)" unfolding list_all_iff by simp
  with False have slot: "nat (getStateIndex (snd fp)) < 20"
    by (auto simp: pair_ok_def split: if_splits)
  define occupant where "occupant = CUBIE_ORDER ! nat (st ! nat (getStateIndex (snd fp)))"
  from complete_perm_range [OF st slot]
  have p: "0 \<le> st ! nat (getStateIndex (snd fp))" "st ! nat (getStateIndex (snd fp)) < 20"
    by simp_all
  from name_length [OF p] have "0 < length occupant"
    by (simp add: occupant_def split: if_splits)
  then have "length (charAt occupant (Some (x mod int (length occupant)))) = 1" for x
    by (simp add: charAt_def)
  with False show ?thesis
    by (simp add: facelet_colour_of_def split_def piece_color_def Let_def occupant_def)
qed

lemma claimed_color_role_correct:
  assumes r: "role_correct st" and ok: "pair_ok (face, facelet)" and ne: "length facelet \<noteq> 1"
  shows "piece_color st face facelet = claimed_color st face facelet"
proof (cases "length facelet = 2")
  case True
  then show ?thesis by (simp add: piece_color_def claimed_color_def Let_def)
next
  case False
  define slot where "slot = nat (getStateIndex facelet)"
  from ok ne False have slot: "12 \<le> slot" "slot < 20"
    by (auto simp: pair_ok_def slot_def split: if_splits)
  from role_correct_corner [OF r slot] have p: "0 \<le> st ! slot" "st ! slot < 20" "\<not> st ! slot < 12"
    by simp_all
  from name_length [OF p(1,2)] p(3) have "length (CUBIE_ORDER ! nat (st ! slot)) = 3" by simp
  with False show ?thesis
    by (simp add: piece_color_def claimed_color_def Let_def slot_def)
qed

text \<open>
  Claim C1. For every complete state (the permutation holds each of the 20 slot values
  once, edge values in the edge slots and corner values in the corner slots as the data
  model has it for a complete state, orientations in range) the projector returns 54
  colours in the face order U, L, F, R, B, D; position 4 of each face is the face letter,
  and any other facelet shows the character of the occupying piece's name at index
  (facelet.indexOf(face) + orientation[slot]) mod the length of that name for an edge
  facelet, and at index (facelet.indexOf(face) + (3 - orientation[slot])) mod 3 for a
  corner facelet.
\<close>

theorem projector_colors:
  assumes "role_correct st"
  shows "\<exists>colors. stateToFaceletColors st = Inr colors \<and> length colors = 54 \<and>
           (\<forall>f<6. \<forall>k<9. colors ! (9 * f + k) =
              (if k = 4 then [faces ! f]
               else claimed_color st (faces ! f) (face_facelets (faces ! f) ! k)))"
proof -
  let ?cs = "map (facelet_colour_of st) facelet_pairs"
  have 1: "stateToFaceletColors st = Inr ?cs"
    using assms by (intro stateToFaceletColors_complete role_correct_complete)
  have 2: "length ?cs = 54" by (simp add: length_facelet_pairs)
  have 3: "?cs ! (9 * f + k) =
      (if k = 4 then [faces ! f] else claimed_color st (faces ! f) (face_facelets (faces ! f) ! k))"
    if "f < 6" "k < 9" for f k
  proof -
    from that have lt: "9 * f + k < length facelet_pairs" by (simp add: length_facelet_pairs)
    then have "facelet_pairs ! (9 * f + k) \<in> set facelet_pairs" by (rule nth_mem)
    with facelet_pairs_ok have "pair_ok (facelet_pairs ! (9 * f + k))"
      unfolding list_all_iff by blast
    then have ok: "pair_ok (faces ! f, face_facelets (faces ! f) ! k)"
      by (simp only: facelet_pairs_nth(1) [OF that])
    from lt have "?cs ! (9 * f + k) = facelet_colour_of st (facelet_pairs ! (9 * f + k))"
      by (rule nth_map)
    then have c: "?cs ! (9 * f + k) =
        facelet_colour_of st (faces ! f, face_facelets (faces ! f) ! k)"
      by (simp only: facelet_pairs_nth(1) [OF that])
    show ?thesis
    proof (cases "k = 4")
      case True
      with c facelet_pairs_nth(2) [OF that] show ?thesis by (simp add: facelet_colour_of_def)
    next
      case False
      with facelet_pairs_nth(2) [OF that]
      have ne: "length (face_facelets (faces ! f) ! k) \<noteq> 1" by simp
      from claimed_color_role_correct [OF assms ok ne] c ne False show ?thesis
        by (simp add: facelet_colour_of_def)
    qed
  qed
  from 1 2 3 show ?thesis by blast
qed

theorem projector_colors_witness:
  "role_correct twisted_state \<and>
   (\<exists>colors. stateToFaceletColors twisted_state = Inr colors \<and> length colors = 54 \<and>
      colors ! (9 * 0 + 4) = ''U'' \<and> colors ! (9 * 0 + 8) = ''B'' \<and> colors ! (9 * 3 + 1) = ''U'')"
proof -
  have r: "role_correct twisted_state" by code_simp
  have a: "claimed_color twisted_state (faces ! 0) (face_facelets (faces ! 0) ! 8) = ''B''"
    by code_simp
  have b: "claimed_color twisted_state (faces ! 3) (face_facelets (faces ! 3) ! 1) = ''U''"
    by code_simp
  have c: "faces ! 0 = CHR ''U''" by code_simp
  from projector_colors [OF r] obtain colors where
    cs: "stateToFaceletColors twisted_state = Inr colors" "length colors = 54"
    and all: "\<forall>f<6. \<forall>k<9. colors ! (9 * f + k) =
              (if k = 4 then [faces ! f]
               else claimed_color twisted_state (faces ! f) (face_facelets (faces ! f) ! k))"
    by blast
  from all [rule_format, of 0 4] have "colors ! (9 * 0 + 4) = [faces ! 0]" by simp
  moreover from all [rule_format, of 0 8]
  have "colors ! (9 * 0 + 8) =
      claimed_color twisted_state (faces ! 0) (face_facelets (faces ! 0) ! 8)"
    by simp
  moreover from all [rule_format, of 3 1]
  have "colors ! (9 * 3 + 1) =
      claimed_color twisted_state (faces ! 3) (face_facelets (faces ! 3) ! 1)"
    by simp
  ultimately show ?thesis using cs a b c r by auto
qed

text \<open>
  Claim C2. For two complete role-correct states the projector returns colours for both,
  and the 54 colours agree position by position if and only if the two states have the
  same permutation array and the same orientation array. The comparison that \<open>check\<close>
  makes, \<open>currentColors.toString() === answerColors.toString()\<close>, holds in exactly
  the same case.
\<close>

theorem facelet_equality_is_state_equality:
  assumes a: "role_correct a" and b: "role_correct b"
  shows "\<exists>ca cb. stateToFaceletColors a = Inr ca \<and> stateToFaceletColors b = Inr cb \<and>
           ((\<forall>i<54. ca ! i = cb ! i) \<longleftrightarrow> (take 20 a = take 20 b \<and> drop 20 a = drop 20 b)) \<and>
           (toString ca = toString cb \<longleftrightarrow> (take 20 a = take 20 b \<and> drop 20 a = drop 20 b))"
proof -
  let ?ca = "map (facelet_colour_of a) facelet_pairs"
  let ?cb = "map (facelet_colour_of b) facelet_pairs"
  have ca: "stateToFaceletColors a = Inr ?ca"
    using a by (intro stateToFaceletColors_complete role_correct_complete)
  have cb: "stateToFaceletColors b = Inr ?cb"
    using b by (intro stateToFaceletColors_complete role_correct_complete)
  have st: "(take 20 a = take 20 b \<and> drop 20 a = drop 20 b) \<longleftrightarrow> a = b"
    by (metis append_take_drop_id)
  have pos: "(\<forall>i<54. ?ca ! i = ?cb ! i) \<longleftrightarrow> ?ca = ?cb"
    unfolding list_eq_iff_nth_eq by (simp add: length_facelet_pairs)
  have one: "\<forall>c\<in>set ?ca. length c = 1" "\<forall>c\<in>set ?cb. length c = 1"
    using colour_length [OF role_correct_complete [OF a]]
      colour_length [OF role_correct_complete [OF b]] by auto
  have str: "toString ?ca = toString ?cb \<longleftrightarrow> ?ca = ?cb"
  proof
    assume "toString ?ca = toString ?cb"
    with one show "?ca = ?cb" by (rule toString_inj)
  next
    assume "?ca = ?cb"
    then show "toString ?ca = toString ?cb" by (rule arg_cong)
  qed
  have main: "?ca = ?cb \<longleftrightarrow> a = b"
  proof
    assume "?ca = ?cb"
    with a b show "a = b" by (rule colours_determine_state)
  next
    assume "a = b"
    then show "?ca = ?cb" by (rule arg_cong)
  qed
  have both: "((\<forall>i<54. ?ca ! i = ?cb ! i) \<longleftrightarrow> (take 20 a = take 20 b \<and> drop 20 a = drop 20 b)) \<and>
              (toString ?ca = toString ?cb \<longleftrightarrow> (take 20 a = take 20 b \<and> drop 20 a = drop 20 b))"
    by (simp only: st pos str main)
  from ca cb both show ?thesis by blast
qed

theorem facelet_equality_is_state_equality_witness:
  "role_correct twisted_state \<and> role_correct solved_state \<and>
   stateToFaceletColors twisted_state = Inr twisted_colors \<and>
   stateToFaceletColors solved_state = Inr solved_colors \<and>
   take 20 twisted_state \<noteq> take 20 solved_state \<and>
   twisted_colors ! 2 \<noteq> solved_colors ! 2 \<and>
   toString twisted_colors \<noteq> toString solved_colors"
proof -
  have rt: "role_correct twisted_state" by code_simp
  have rs: "role_correct solved_state" by code_simp
  have ct: "stateToFaceletColors twisted_state = Inr twisted_colors" by code_simp
  have cs: "stateToFaceletColors solved_state = Inr solved_colors" by code_simp
  have ne: "take 20 twisted_state \<noteq> take 20 solved_state" by code_simp
  have c2: "twisted_colors ! 2 \<noteq> solved_colors ! 2" by code_simp
  from facelet_equality_is_state_equality [OF rt rs] ct cs
  have "toString twisted_colors = toString solved_colors \<longleftrightarrow>
        (take 20 twisted_state = take 20 solved_state \<and>
         drop 20 twisted_state = drop 20 solved_state)"
    by simp
  with ne have "toString twisted_colors \<noteq> toString solved_colors" by simp
  with rt rs ct cs ne c2 show ?thesis by simp
qed

section \<open>Generation of the answer state\<close>
















section \<open>The picker and the orientation range\<close>

lemma indexOf_from_found:
  "indexOf_from xs x k = i \<Longrightarrow> 0 \<le> k \<Longrightarrow> 0 \<le> i \<Longrightarrow>
   k \<le> i \<and> nat (i - k) < length xs \<and> xs ! nat (i - k) = x"
proof (induction xs arbitrary: k)
  case Nil
  then show ?case by simp
next
  case (Cons y ys)
  show ?case
  proof (cases "y = x")
    case True
    with Cons.prems show ?thesis by simp
  next
    case False
    with Cons.prems have "indexOf_from ys x (k + 1) = i" by simp
    from Cons.IH [OF this] Cons.prems have "k + 1 \<le> i" "nat (i - (k + 1)) < length ys"
      "ys ! nat (i - (k + 1)) = x" by simp_all
    moreover from \<open>k + 1 \<le> i\<close> have "nat (i - k) = Suc (nat (i - (k + 1)))" by simp
    ultimately show ?thesis by simp
  qed
qed

lemma getStateIndex_name:
  assumes "0 \<le> getStateIndex n"
  shows "getStateIndex n < 20 \<and> CUBIE_ORDER ! nat (getStateIndex n) = n"
proof -
  from indexOf_from_found [of CUBIE_ORDER n 0 "getStateIndex n"] assms
  have "nat (getStateIndex n) < length CUBIE_ORDER" "CUBIE_ORDER ! nat (getStateIndex n) = n"
    by (simp_all add: getStateIndex_def indexOf_def)
  with assms show ?thesis by (simp add: length_CUBIE_ORDER)
qed

lemma initPicker_arrays:
  "permutation (initPicker c cubie k) = permutation c \<and>
   orientation (initPicker c cubie k) = orientation c"
  by (simp add: initPicker_def Let_def)

lemma in_range_nth:
  "orientation_in_range ori \<longleftrightarrow>
     length ori = 20 \<and> (\<forall>i<20. 0 \<le> ori ! i \<and> ori ! i < (if i < 12 then 2 else 3))"
  by (auto simp: orientation_in_range_def list_all_iff)

lemma in_range_set:
  assumes r: "orientation_in_range ori"
    and v: "0 \<le> i \<Longrightarrow> i < 20 \<Longrightarrow> 0 \<le> v \<and> v < (if i < 12 then 2 else 3)"
  shows "orientation_in_range (js_set ori i v)"
proof (cases "0 \<le> i \<and> i < 20")
  case True
  with r v have "0 \<le> v" "v < (if nat i < 12 then 2 else 3)"
    by (auto simp: nat_less_iff)
  from r have len: "length ori = 20"
    and all: "\<And>j. j < 20 \<Longrightarrow> 0 \<le> ori ! j \<and> ori ! j < (if j < 12 then 2 else 3)"
    by (simp_all add: in_range_nth)
  from True len have set: "js_set ori i v = ori[nat i := v]" by (simp add: js_set_def)
  have "0 \<le> ori[nat i := v] ! j \<and> ori[nat i := v] ! j < (if j < 12 then 2 else 3)"
    if "j < 20" for j
  proof (cases "j = nat i")
    case True
    with that len \<open>0 \<le> v\<close> \<open>v < (if nat i < 12 then 2 else 3)\<close> show ?thesis by simp
  next
    case False
    with all [OF that] show ?thesis by simp
  qed
  with len show ?thesis unfolding set in_range_nth by simp
next
  case False
  with r show ?thesis by (auto simp: in_range_nth js_set_def)
qed

lemma button_onclick_orientation:
  "orientation (button_onclick c cubie piece) =
     js_set (orientation c) (getStateIndex (name cubie)) 0"
  by (simp add: button_onclick_def Let_def initPicker_arrays)

lemma erase_onclick_orientation: "orientation (erase_onclick c cubie) = orientation c"
  by (simp add: erase_onclick_def Let_def initPicker_arrays)

lemma rotate_onclick_orientation:
  "orientation (rotate_onclick c cubie) =
     (case js_get (orientation c) (getStateIndex (name cubie)) of
        None \<Rightarrow> orientation c
      | Some ori \<Rightarrow>
          js_set (orientation c) (getStateIndex (name cubie))
            (if ori - 1 < 0 then int (length (name cubie)) - 1 else ori - 1))"
  by (simp add: rotate_onclick_def Let_def split: option.splits)

lemma rotate_in_range:
  assumes r: "orientation_in_range (orientation c)"
  shows "orientation_in_range (orientation (rotate_onclick c cubie))"
proof (cases "js_get (orientation c) (getStateIndex (name cubie))")
  case None
  with r show ?thesis by (simp add: rotate_onclick_orientation)
next
  case (Some ori)
  let ?i = "getStateIndex (name cubie)"
  from Some have i: "0 \<le> ?i" "?i < int (length (orientation c))"
    and ori: "ori = orientation c ! nat ?i"
    by (auto simp: js_get_def split: if_splits)
  from r i have i20: "nat ?i < 20" by (simp add: in_range_nth)
  with r ori have o: "0 \<le> ori" "ori < (if nat ?i < 12 then 2 else 3)"
    by (auto simp: in_range_nth)
  from getStateIndex_name [OF i(1)] have n: "CUBIE_ORDER ! nat ?i = name cubie" by simp
  from name_length [OF i(1)] i20 n
  have len: "int (length (name cubie)) = (if ?i < 12 then 2 else 3)" by (simp add: nat_less_iff)
  have "orientation_in_range (js_set (orientation c) ?i
      (if ori - 1 < 0 then int (length (name cubie)) - 1 else ori - 1))"
  proof (rule in_range_set [OF r])
    show "0 \<le> (if ori - 1 < 0 then int (length (name cubie)) - 1 else ori - 1) \<and>
          (if ori - 1 < 0 then int (length (name cubie)) - 1 else ori - 1) <
            (if ?i < 12 then 2 else 3)"
      using o len i(1) by (auto simp: nat_less_iff split: if_splits)
  qed
  with Some show ?thesis by (simp add: rotate_onclick_orientation)
qed

lemma ui_step_in_range:
  assumes r: "orientation_in_range (orientation c)"
  shows "orientation_in_range (orientation (ui_step c ev))"
proof (cases ev)
  case (ClickCubie cubie)
  with r show ?thesis by (simp add: ui_step_def initPicker_arrays)
next
  case (ClickPiece piece)
  have "orientation_in_range (js_set (orientation c) i 0)" for i
    using r by (rule in_range_set) simp
  with r ClickPiece show ?thesis
    by (simp add: ui_step_def button_onclick_orientation split: option.splits)
next
  case ClickErase
  with r show ?thesis
    by (simp add: ui_step_def erase_onclick_orientation split: option.splits)
next
  case ClickRotate
  with r rotate_in_range [OF r] show ?thesis
    by (simp add: ui_step_def split: option.splits)
next
  case (PressKey key cam)
  with r show ?thesis
    by (simp add: ui_step_def navigateWASD_def initPicker_arrays split: option.splits)
qed

lemma ui_run_in_range:
  "orientation_in_range (orientation c) \<Longrightarrow> orientation_in_range (orientation (ui_run c evs))"
  unfolding ui_run_def
  by (induction evs arbitrary: c) (simp_all add: ui_step_in_range)

lemma zero_in_range: "orientation_in_range (replicate 20 0)"
  by (simp add: in_range_nth)

text \<open>
  Claim C7. Assigning a piece sets the slot's orientation to 0, erasing leaves the
  orientation array as it is, and rotating decrements the slot's orientation and wraps a
  negative value to the length of the cubie's name minus 1. Every event of the page keeps
  the orientation range, so from the all-zero orientation array every sequence of events
  leaves each edge slot's orientation in {0, 1} and each corner slot's in {0, 1, 2}.
\<close>

theorem picker_keeps_orientation_in_range:
  "orientation (button_onclick c cubie piece) =
     js_set (orientation c) (getStateIndex (name cubie)) 0 \<and>
   orientation (erase_onclick c cubie) = orientation c \<and>
   orientation (rotate_onclick c cubie) =
     (case js_get (orientation c) (getStateIndex (name cubie)) of
        None \<Rightarrow> orientation c
      | Some ori \<Rightarrow>
          js_set (orientation c) (getStateIndex (name cubie))
            (if ori - 1 < 0 then int (length (name cubie)) - 1 else ori - 1)) \<and>
   (orientation_in_range (orientation c) \<longrightarrow>
      orientation_in_range (orientation (ui_step c ev))) \<and>
   (orientation c = replicate 20 0 \<longrightarrow> orientation_in_range (orientation (ui_run c evs)))"
proof -
  have "orientation_in_range (orientation (ui_run c evs))" if "orientation c = replicate 20 0"
    using ui_run_in_range [of c evs] zero_in_range that by simp
  with button_onclick_orientation erase_onclick_orientation rotate_onclick_orientation
    ui_step_in_range
  show ?thesis by blast
qed

theorem picker_keeps_orientation_in_range_witness:
  "orientation (new_cube solved_state) = replicate 20 0 \<and>
   orientation (ui_run (new_cube solved_state) reassign_clicks) =
     [1, 0, 0, 0, 0, 0, 0, 0, 0, 0, 0, 0, 0, 0, 0, 0, 0, 0, 0, 0] \<and>
   orientation (ui_run (new_cube solved_state) rotate_clicks) =
     [1, 0, 0, 0, 0, 0, 0, 0, 0, 0, 0, 0, 1, 0, 0, 0, 0, 0, 0, 0] \<and>
   orientation_in_range (orientation (ui_run (new_cube solved_state) rotate_clicks))"
proof -
  have z: "orientation (new_cube solved_state) = replicate 20 0"
    by (simp add: new_cube_def)
  have "orientation (ui_run (new_cube solved_state) reassign_clicks) =
      (replicate 20 0)[0 := 1, 12 := 0]"
    by (simp add: ui_run_def ui_step_def rotate_clicks_def reassign_clicks_def initPicker_def
        rotate_onclick_def erase_onclick_def button_onclick_def CORNER_PIECES_def
        EDGE_PIECES_def new_cube_def cubie_UF_def cubie_UFR_def isCenterName_def correct_def
        getStateIndex_def indexOf_def CUBIE_ORDER_def js_get_def js_set_def Let_def)
  also have "\<dots> = [1, 0, 0, 0, 0, 0, 0, 0, 0, 0, 0, 0, 0, 0, 0, 0, 0, 0, 0, 0]"
    by code_simp
  finally have a: "orientation (ui_run (new_cube solved_state) reassign_clicks) =
      [1, 0, 0, 0, 0, 0, 0, 0, 0, 0, 0, 0, 0, 0, 0, 0, 0, 0, 0, 0]" .
  have "orientation (ui_run (new_cube solved_state) rotate_clicks) =
      (replicate 20 0)[0 := 1, 12 := 1]"
    by (simp add: ui_run_def ui_step_def rotate_clicks_def initPicker_def rotate_onclick_def
        new_cube_def cubie_UF_def cubie_UFR_def isCenterName_def correct_def getStateIndex_def
        indexOf_def CUBIE_ORDER_def js_get_def js_set_def Let_def)
  also have "\<dots> = [1, 0, 0, 0, 0, 0, 0, 0, 0, 0, 0, 0, 1, 0, 0, 0, 0, 0, 0, 0]"
    by code_simp
  finally have b: "orientation (ui_run (new_cube solved_state) rotate_clicks) =
      [1, 0, 0, 0, 0, 0, 0, 0, 0, 0, 0, 0, 1, 0, 0, 0, 0, 0, 0, 0]" .
  note t = picker_keeps_orientation_in_range
    [where c = "new_cube solved_state" and evs = rotate_clicks]
  note t [THEN conjunct2, THEN conjunct2, THEN conjunct2, THEN conjunct2]
  with z have r: "orientation_in_range (orientation (ui_run (new_cube solved_state) rotate_clicks))"
    by (rule rev_mp)
  from z a b r show ?thesis by (intro conjI)
qed

section \<open>Directional navigation\<close>






















section \<open>The guess button\<close>

lemma push_colors_throws: "Inl e \<in> set rs \<Longrightarrow> \<exists>e'. push_colors rs = Inl e'"
proof (induction rs)
  case Nil
  then show ?case by simp
next
  case (Cons r rs)
  then show ?case by (cases r) (auto split: sum.splits)
qed

lemma push_colors_returns:
  "(\<And>r. r \<in> set rs \<Longrightarrow> \<exists>c. r = Inr c) \<Longrightarrow> \<exists>cs. push_colors rs = Inr cs"
proof (induction rs)
  case Nil
  then show ?case by simp
next
  case (Cons r rs)
  from Cons.prems [of r] obtain c where r: "r = Inr c" by auto
  from Cons.IH Cons.prems obtain cs where "push_colors rs = Inr cs" by auto
  with r show ?case by simp
qed

lemma entries_in_range_iff:
  "entries_in_range state \<longleftrightarrow>
     (\<forall>i<20. \<exists>p. js_get (take 20 state) (int i) = Some p \<and> 0 \<le> p \<and> p < 20)"
proof -
  have "(case x of None \<Rightarrow> False | Some p \<Rightarrow> 0 \<le> p \<and> p < 20) \<longleftrightarrow>
        (\<exists>p. x = Some p \<and> 0 \<le> p \<and> p < 20)" for x :: "int option"
    by (cases x) simp_all
  then show ?thesis by (auto simp: entries_in_range_def list_all_iff)
qed

lemma projector_throws:
  assumes "\<not> entries_in_range state"
  shows "stateToFaceletColors state = Inl TypeError"
proof -
  let ?perm = "take 20 state" and ?ori = "drop 20 state"
  from assms obtain i where i: "i < 20"
    and bad: "\<And>p. js_get ?perm (int i) = Some p \<Longrightarrow> \<not> (0 \<le> p \<and> p < 20)"
    unfolding entries_in_range_iff by blast
  let ?n = "CUBIE_ORDER ! i"
  from i slots_ok have ok: "slot_ok i" unfolding list_all_iff by simp
  then have idx: "getStateIndex ?n = int i" and len: "length ?n = (if i < 12 then 2 else 3)"
    by (simp_all add: slot_ok_def Let_def)
  from len have ne: "length ?n \<noteq> 1" and pos: "0 < length ?n" by simp_all
  from slot_faces_in_table [OF i pos] have mem: "(?n ! 0, ?n) \<in> set facelet_pairs" .
  have none: "(case js_get ?perm (int i) of None \<Rightarrow> None | Some p \<Rightarrow> js_get CUBIE_ORDER p) = None"
  proof (cases "js_get ?perm (int i)")
    case None
    then show ?thesis by simp
  next
    case (Some p)
    from bad [OF Some] have "js_get CUBIE_ORDER p = None"
      by (auto simp: js_get_def length_CUBIE_ORDER)
    with Some show ?thesis by simp
  qed
  have "facelet_color ?perm ?ori (?n ! 0) ?n = Inl TypeError"
    using ne by (simp add: facelet_color_def Let_def idx none)
  with mem have "Inl TypeError \<in>
      set (map (\<lambda>(face, facelet). facelet_color ?perm ?ori face facelet) facelet_pairs)"
    by force
  from push_colors_throws [OF this] obtain e' where
    "stateToFaceletColors state = Inl e'" by (auto simp: stateToFaceletColors_def Let_def)
  then show ?thesis by (cases e') simp
qed

lemma projector_returns:
  assumes "entries_in_range state"
  shows "\<exists>colors. stateToFaceletColors state = Inr colors"
proof -
  let ?perm = "take 20 state" and ?ori = "drop 20 state"
  let ?f = "\<lambda>(face, facelet). facelet_color ?perm ?ori face facelet"
  have "\<exists>c. r = Inr c" if r: "r \<in> set (map ?f facelet_pairs)" for r
  proof -
    from r obtain face facelet where mem: "(face, facelet) \<in> set facelet_pairs"
      and req: "r = facelet_color ?perm ?ori face facelet" by auto
    from mem facelet_pairs_ok have ok: "pair_ok (face, facelet)" unfolding list_all_iff by blast
    show ?thesis
    proof (cases "length facelet = 1")
      case True
      with req show ?thesis by (simp add: facelet_color_def)
    next
      case False
      with ok have rng: "0 \<le> getStateIndex facelet" "getStateIndex facelet < 20"
        by (simp_all add: pair_ok_def)
      then have "nat (getStateIndex facelet) < 20" by simp
      with assms obtain p where
        "js_get ?perm (int (nat (getStateIndex facelet))) = Some p" "0 \<le> p" "p < 20"
        unfolding entries_in_range_iff by blast
      with rng have g: "js_get ?perm (getStateIndex facelet) = Some p"
        and c: "js_get CUBIE_ORDER p = Some (CUBIE_ORDER ! nat p)"
        by (simp_all add: js_get_def length_CUBIE_ORDER)
      from False req show ?thesis by (simp add: facelet_color_def Let_def g c)
    qed
  qed
  from push_colors_returns [of "map ?f facelet_pairs", OF this]
  show ?thesis by (simp add: stateToFaceletColors_def Let_def)
qed

lemma initPicker_stored:
  "stored_permutation (initPicker c cubie k) = stored_permutation c \<and>
   stored_orientation (initPicker c cubie k) = stored_orientation c"
  by (simp add: initPicker_def Let_def)

text \<open>
  The guesses that \<open>check\<close> takes although their shape is malformed, with the parity test
  of the specification for \<open>verify\<close>: slot 19 holds the value 20, and the guess is counted
  and saved before the projector throws; two edges and two corners sit in each other's
  slots, and the guess is counted and scored; the orientation array has 19 entries, and the
  guess is counted, saved with the short array, and scored. Nothing distinguishes the
  outcomes from those of well-formed guesses, and no outcome is kept for a malformed shape.
\<close>

theorem check_takes_malformed_guesses_counterexample:
  "permutation out_of_range_cube ! 19 = 20 \<and>
   fst (check verifyState solved_colors out_of_range_cube 0) = Thrown TypeError \<and>
   snd (snd (check verifyState solved_colors out_of_range_cube 0)) = 1 \<and>
   stored_permutation (fst (snd (check verifyState solved_colors out_of_range_cube 0))) =
     Some (permutation out_of_range_cube) \<and>
   \<not> role_correct (permutation role_crossing_cube @ orientation role_crossing_cube) \<and>
   fst (check verifyState solved_colors role_crossing_cube 0) = Guessed False \<and>
   snd (snd (check verifyState solved_colors role_crossing_cube 0)) = 1 \<and>
   length (orientation short_cube) = 19 \<and>
   fst (check verifyState solved_colors short_cube 0) = Guessed False \<and>
   snd (snd (check verifyState solved_colors short_cube 0)) = 1 \<and>
   stored_orientation (fst (snd (check verifyState solved_colors short_cube 0))) =
     Some (replicate 19 0) \<and>
   fst (check verifyState solved_colors flipped_cube 0) = Shake"
  by code_simp

text \<open>
  Claim C9, as amended. \<open>check\<close> has no test of the shape of the guess and no outcome for
  a malformed one. The guess is refused, with the shake that also answers a parity failure
  and with nothing counted or saved, exactly when the permutation contains the unassigned
  marker -1 or verification returns false. Every other guess made before the sixth is
  counted and saved whatever its shape; if one of the first 20 entries of the state is
  missing or outside 0..19 the projector then throws a TypeError, and otherwise the guess is
  projected and compared with the answer, whatever the roles of the entries and whatever
  the orientation array holds. From the sixth counted guess on the game is over.
\<close>

theorem check_has_no_shape_test:
  "(fst (check verify answerColors cube guesses) = Shake \<longleftrightarrow>
      - 1 \<in> set (permutation cube) \<or> \<not> verify (permutation cube @ orientation cube)) \<and>
   (- 1 \<in> set (permutation cube) \<or> \<not> verify (permutation cube @ orientation cube) \<longrightarrow>
      check verify answerColors cube guesses = (Shake, cube, guesses)) \<and>
   (- 1 \<notin> set (permutation cube) \<and> verify (permutation cube @ orientation cube) \<and>
    guesses \<ge> 6 \<longrightarrow>
      fst (check verify answerColors cube guesses) = GameOver \<and>
      snd (snd (check verify answerColors cube guesses)) = guesses) \<and>
   (- 1 \<notin> set (permutation cube) \<and> verify (permutation cube @ orientation cube) \<and>
    guesses < 6 \<longrightarrow>
      snd (snd (check verify answerColors cube guesses)) = guesses + 1 \<and>
      stored_permutation (fst (snd (check verify answerColors cube guesses))) =
        Some (permutation cube) \<and>
      stored_orientation (fst (snd (check verify answerColors cube guesses))) =
        Some (orientation cube) \<and>
      (\<not> entries_in_range (permutation cube @ orientation cube) \<longrightarrow>
         fst (check verify answerColors cube guesses) = Thrown TypeError) \<and>
      (entries_in_range (permutation cube @ orientation cube) \<longrightarrow>
         (\<exists>colors. stateToFaceletColors (permutation cube @ orientation cube) = Inr colors \<and>
            fst (check verify answerColors cube guesses) =
              Guessed (toString colors = toString answerColors))))"
proof -
  let ?state = "permutation cube @ orientation cube"
  let ?r = "check verify answerColors cube guesses"
  have shake: "?r = (Shake, cube, guesses)"
    if "- 1 \<in> set (permutation cube) \<or> \<not> verify ?state"
    using that by (simp add: check_def)
  have over: "fst ?r = GameOver \<and> snd (snd ?r) = guesses"
    if "- 1 \<notin> set (permutation cube) \<and> verify ?state \<and> guesses \<ge> 6"
    using that by (simp add: check_def)
  have taken: "snd (snd ?r) = guesses + 1 \<and>
      stored_permutation (fst (snd ?r)) = Some (permutation cube) \<and>
      stored_orientation (fst (snd ?r)) = Some (orientation cube)"
    if "- 1 \<notin> set (permutation cube) \<and> verify ?state \<and> guesses < 6"
    using that by (simp add: check_def Let_def initPicker_stored split: sum.splits)
  have thrown: "fst ?r = Thrown TypeError"
    if "- 1 \<notin> set (permutation cube) \<and> verify ?state \<and> guesses < 6"
      and "\<not> entries_in_range ?state"
    using that(1) projector_throws [OF that(2)] by (simp add: check_def Let_def)
  have scored: "\<exists>colors. stateToFaceletColors ?state = Inr colors \<and>
      fst ?r = Guessed (toString colors = toString answerColors)"
    if "- 1 \<notin> set (permutation cube) \<and> verify ?state \<and> guesses < 6"
      and "entries_in_range ?state"
  proof -
    from projector_returns [OF that(2)] obtain colors where
      "stateToFaceletColors ?state = Inr colors" ..
    with that(1) show ?thesis by (simp add: check_def Let_def)
  qed
  have iff: "fst ?r = Shake \<longleftrightarrow> - 1 \<in> set (permutation cube) \<or> \<not> verify ?state"
  proof
    assume s: "fst ?r = Shake"
    show "- 1 \<in> set (permutation cube) \<or> \<not> verify ?state"
    proof (rule ccontr)
      assume "\<not> (- 1 \<in> set (permutation cube) \<or> \<not> verify ?state)"
      then have "fst ?r \<noteq> Shake"
        by (simp add: check_def Let_def split: sum.splits)
      with s show False by simp
    qed
  next
    assume "- 1 \<in> set (permutation cube) \<or> \<not> verify ?state"
    from shake [OF this] show "fst ?r = Shake" by simp
  qed
  from iff shake over taken thrown scored show ?thesis by blast
qed

theorem check_has_no_shape_test_witness:
  "\<not> verifyState (permutation flipped_cube @ orientation flipped_cube) \<and>
   check verifyState solved_colors flipped_cube 0 = (Shake, flipped_cube, 0) \<and>
   - 1 \<notin> set (permutation out_of_range_cube) \<and>
   verifyState (permutation out_of_range_cube @ orientation out_of_range_cube) \<and>
   \<not> entries_in_range (permutation out_of_range_cube @ orientation out_of_range_cube) \<and>
   fst (check verifyState solved_colors out_of_range_cube 0) = Thrown TypeError \<and>
   snd (snd (check verifyState solved_colors out_of_range_cube 0)) = 0 + 1 \<and>
   entries_in_range (permutation role_crossing_cube @ orientation role_crossing_cube) \<and>
   verifyState (permutation role_crossing_cube @ orientation role_crossing_cube) \<and>
   (\<exists>colors. stateToFaceletColors (permutation role_crossing_cube @ orientation role_crossing_cube) =
        Inr colors \<and>
      fst (check verifyState solved_colors role_crossing_cube 0) =
        Guessed (toString colors = toString solved_colors)) \<and>
   fst (check verifyState solved_colors (new_cube solved_state) 6) = GameOver"
proof -
  have f: "\<not> verifyState (permutation flipped_cube @ orientation flipped_cube)" by code_simp
  have o: "- 1 \<notin> set (permutation out_of_range_cube)"
    "verifyState (permutation out_of_range_cube @ orientation out_of_range_cube)"
    "\<not> entries_in_range (permutation out_of_range_cube @ orientation out_of_range_cube)"
    by code_simp+
  have r: "- 1 \<notin> set (permutation role_crossing_cube)"
    "verifyState (permutation role_crossing_cube @ orientation role_crossing_cube)"
    "entries_in_range (permutation role_crossing_cube @ orientation role_crossing_cube)"
    by code_simp+
  have s: "- 1 \<notin> set (permutation (new_cube solved_state))"
    "verifyState (permutation (new_cube solved_state) @ orientation (new_cube solved_state))"
    by code_simp+
  note t1 = check_has_no_shape_test
    [where cube = flipped_cube and verify = verifyState and answerColors = solved_colors
       and guesses = 0]
  note t2 = check_has_no_shape_test
    [where cube = out_of_range_cube and verify = verifyState and answerColors = solved_colors
       and guesses = 0]
  note t3 = check_has_no_shape_test
    [where cube = role_crossing_cube and verify = verifyState and answerColors = solved_colors
       and guesses = 0]
  note t4 = check_has_no_shape_test
    [where cube = "new_cube solved_state" and verify = verifyState
       and answerColors = solved_colors and guesses = 6]
  from f t1 have c1: "check verifyState solved_colors flipped_cube 0 = (Shake, flipped_cube, 0)"
    by blast
  from o t2 have c2: "fst (check verifyState solved_colors out_of_range_cube 0) = Thrown TypeError"
    "snd (snd (check verifyState solved_colors out_of_range_cube 0)) = 0 + 1"
    by simp_all
  from r t3 have c3: "\<exists>colors.
      stateToFaceletColors (permutation role_crossing_cube @ orientation role_crossing_cube) =
        Inr colors \<and>
      fst (check verifyState solved_colors role_crossing_cube 0) =
        Guessed (toString colors = toString solved_colors)"
    by simp
  from s t4 have c4: "fst (check verifyState solved_colors (new_cube solved_state) 6) = GameOver"
    by simp
  from f o r c1 c2 c3 c4 show ?thesis by blast
qed

end
